theory Spec2Isabelle
  imports Complex_Main
begin

section \<open>Python text and numbers used by opal_scraper.py\<close>

text \<open>
  Python strings are modelled as \<open>string\<close>. The text operations below are the ASCII
  behaviour of the Python built-ins; a code point outside ASCII is carried as its UTF-8
  bytes and is neither whitespace, nor a digit, nor a letter with a lower case here.
\<close>

datatype py_error = ValueError

definition isspace :: "char \<Rightarrow> bool" where
  \<comment> \<open>the ASCII characters for which str.isspace holds\<close>
  "isspace c = (c \<in> set [CHR 0x09, CHR 0x0A, CHR 0x0B, CHR 0x0C, CHR 0x0D,
                          CHR 0x1C, CHR 0x1D, CHR 0x1E, CHR 0x1F, CHR 0x20])"

definition strip :: "string \<Rightarrow> string" where
  \<comment> \<open>str.strip()\<close>
  "strip s = rev (dropWhile isspace (rev (dropWhile isspace s)))"

definition remove_char :: "char \<Rightarrow> string \<Rightarrow> string" where
  \<comment> \<open>s.replace(c, "") for a one-character c\<close>
  "remove_char c s = filter (\<lambda>x. x \<noteq> c) s"

definition is_digit :: "char \<Rightarrow> bool" where
  "is_digit c = (c \<in> set ''0123456789'')"

definition isdigit :: "string \<Rightarrow> bool" where
  \<comment> \<open>str.isdigit(): at least one character, all of them digits\<close>
  "isdigit s = (s \<noteq> [] \<and> list_all is_digit s)"

definition lower_char :: "char \<Rightarrow> char" where
  "lower_char c =
     (case map_of (zip ''ABCDEFGHIJKLMNOPQRSTUVWXYZ'' ''abcdefghijklmnopqrstuvwxyz'') c of
        Some l \<Rightarrow> l
      | None \<Rightarrow> c)"

definition lower :: "string \<Rightarrow> string" where
  \<comment> \<open>str.lower()\<close>
  "lower s = map lower_char s"

definition startswith :: "string \<Rightarrow> string \<Rightarrow> bool" where
  \<comment> \<open>s.startswith(p)\<close>
  "startswith s p = (take (length p) s = p)"

fun py_in :: "string \<Rightarrow> string \<Rightarrow> bool" where
  \<comment> \<open>the substring test \<open>sub in s\<close>\<close>
  "py_in sub [] = (sub = [])"
| "py_in sub (c # cs) = (startswith (c # cs) sub \<or> py_in sub cs)"

fun split_on :: "char \<Rightarrow> string \<Rightarrow> string list" where
  \<comment> \<open>s.split(c) for a one-character separator c\<close>
  "split_on c [] = [[]]"
| "split_on c (x # xs) =
     (if x = c then [] # split_on c xs
      else (case split_on c xs of [] \<Rightarrow> [[x]] | p # ps \<Rightarrow> (x # p) # ps))"

definition truthy :: "string option \<Rightarrow> bool" where
  \<comment> \<open>truth value of a Python value that is None or a str\<close>
  "truthy v = (case v of None \<Rightarrow> False | Some s \<Rightarrow> s \<noteq> [])"

definition digit_val :: "char \<Rightarrow> nat" where
  "digit_val c = of_char c - 48"

definition digits_val :: "string \<Rightarrow> nat" where
  \<comment> \<open>value of a string of decimal digits\<close>
  "digits_val s = foldl (\<lambda>acc c. 10 * acc + digit_val c) 0 s"

function str_nat :: "nat \<Rightarrow> string" where
  \<comment> \<open>str(n) of a non-negative int: its decimal digits\<close>
  "str_nat n =
     (if n < 10 then [''0123456789'' ! n]
      else str_nat (n div 10) @ [''0123456789'' ! (n mod 10)])"
  by pat_completeness auto
termination
  by (relation "measure (\<lambda>n. n)") auto

declare str_nat.simps [simp del]

fun underscores_ok :: "char option \<Rightarrow> string \<Rightarrow> bool" where
  \<comment> \<open>numeric literals: an underscore stands only between two digits;
      the first argument is the preceding character\<close>
  "underscores_ok prev [] = True"
| "underscores_ok prev (c # cs) =
     (if c = CHR ''_''
      then (case prev of None \<Rightarrow> False | Some p \<Rightarrow> is_digit p)
           \<and> (case cs of [] \<Rightarrow> False | d # _ \<Rightarrow> is_digit d)
           \<and> underscores_ok (Some c) cs
      else underscores_ok (Some c) cs)"

definition split_sign :: "string \<Rightarrow> bool \<times> string" where
  \<comment> \<open>an optional leading sign; True for minus\<close>
  "split_sign s =
     (case s of
        c # cs \<Rightarrow> if c = CHR ''-'' then (True, cs) else if c = CHR ''+'' then (False, cs)
                  else (False, s)
      | [] \<Rightarrow> (False, s))"

definition py_int :: "string \<Rightarrow> py_error + int" where
  \<comment> \<open>int(s) in base 10: surrounding whitespace, a sign, digits with single underscores
      between them; ValueError otherwise\<close>
  "py_int s =
     (let t = strip s in
      if \<not> underscores_ok None t then Inl ValueError
      else (case split_sign (remove_char CHR ''_'' t) of
              (neg, ds) \<Rightarrow>
                if isdigit ds
                then Inr (if neg then - int (digits_val ds) else int (digits_val ds))
                else Inl ValueError))"

text \<open>
  A Python float is modelled by the exact decimal value it was read from, with its sign
  kept apart (so that \<open>-0.0\<close> is a value): \<open>Finite neg q\<close> stands for the double nearest
  to \<open>q\<close>, negated when \<open>neg\<close>. Rounding to a double is a function of the exact value, so
  two model values that are equal denote equal doubles.
\<close>

datatype pyfloat = Finite bool rat | Infinite bool | NaN

definition fneg :: "pyfloat \<Rightarrow> pyfloat" where
  \<comment> \<open>unary minus\<close>
  "fneg v = (case v of Finite s q \<Rightarrow> Finite (\<not> s) q | Infinite s \<Rightarrow> Infinite (\<not> s) | NaN \<Rightarrow> NaN)"

definition is_negative :: "pyfloat \<Rightarrow> bool" where
  "is_negative v = (case v of Finite s q \<Rightarrow> s | Infinite s \<Rightarrow> s | NaN \<Rightarrow> False)"

definition pow10 :: "int \<Rightarrow> rat" where
  "pow10 e = (if 0 \<le> e then 10 ^ nat e else 1 / 10 ^ nat (- e))"

definition parse_exponent :: "string \<Rightarrow> int option" where
  \<comment> \<open>what follows the letter e: a sign and at least one digit\<close>
  "parse_exponent s =
     (case split_sign s of
        (neg, ds) \<Rightarrow>
          if isdigit ds then Some (if neg then - int (digits_val ds) else int (digits_val ds))
          else None)"

definition parse_decimal :: "string \<Rightarrow> rat option" where
  \<comment> \<open>an unsigned decimal literal: digits, an optional point and digits (one digit at
      least in all), an optional exponent\<close>
  "parse_decimal s =
     (let mant = takeWhile (\<lambda>c. c \<noteq> CHR ''e'' \<and> c \<noteq> CHR ''E'') s;
          rest = dropWhile (\<lambda>c. c \<noteq> CHR ''e'' \<and> c \<noteq> CHR ''E'') s;
          ip = takeWhile (\<lambda>c. c \<noteq> CHR ''.'') mant;
          fp = (case dropWhile (\<lambda>c. c \<noteq> CHR ''.'') mant of [] \<Rightarrow> [] | _ # f \<Rightarrow> f)
      in if \<not> (list_all is_digit ip \<and> list_all is_digit fp \<and> ip @ fp \<noteq> []) then None
         else (case (case rest of [] \<Rightarrow> Some 0 | _ # ex \<Rightarrow> parse_exponent ex) of
                 None \<Rightarrow> None
               | Some e \<Rightarrow> Some (of_nat (digits_val (ip @ fp)) * pow10 (e - int (length fp)))))"

definition py_float :: "string \<Rightarrow> py_error + pyfloat" where
  \<comment> \<open>float(s): surrounding whitespace, a sign, then inf, infinity or nan in any case, or
      a decimal literal with single underscores between digits; ValueError otherwise\<close>
  "py_float s =
     (let t = strip s in
      if \<not> underscores_ok None t then Inl ValueError
      else (case split_sign (remove_char CHR ''_'' t) of
              (neg, body) \<Rightarrow>
                if lower body = ''inf'' \<or> lower body = ''infinity'' then Inr (Infinite neg)
                else if lower body = ''nan'' then Inr NaN
                else (case parse_decimal body of
                        None \<Rightarrow> Inl ValueError
                      | Some q \<Rightarrow> Inr (Finite neg q))))"

section \<open>Trip rows: amount and trip type\<close>

definition clean_amount :: "string \<Rightarrow> string" where
  \<comment> \<open>line 112, on the stripped amount text\<close>
  "clean_amount amount_text =
     strip (remove_char CHR ''-'' (remove_char CHR '','' (remove_char CHR ''$'' amount_text)))"

definition parse_amount :: "string \<Rightarrow> py_error + pyfloat" where
  \<comment> \<open>lines 111 to 115 of extract_trip_items, from the inner text of the amount element;
      Inl is the exception float() raises\<close>
  "parse_amount inner =
     (let amount_text = strip inner;
          clean = clean_amount amount_text
      in case (if clean \<noteq> [] then py_float clean else Inr (Finite False 0)) of
           Inl e \<Rightarrow> Inl e
         | Inr amt \<Rightarrow> Inr (if py_in ''-'' amount_text then fneg amt else amt))"

datatype icon_query =
    NoIcon                    \<comment> \<open>query_selector returned None\<close>
  | Icon "string option"      \<comment> \<open>an element, with the value of get_attribute("iconname")\<close>
  | IconRaises                \<comment> \<open>the query or the attribute read raised\<close>

definition classify_name :: "string \<Rightarrow> string" where
  \<comment> \<open>the if/elif chain of lines 122 to 131 on the lowered name; Unknown is the value
      trip_type holds from line 117\<close>
  "classify_name name =
     (if py_in ''train'' name then ''Train''
      else if py_in ''metro'' name then ''Metro''
      else if py_in ''bus'' name then ''Bus''
      else if py_in ''ferry'' name then ''Ferry''
      else if py_in ''light'' name \<or> py_in ''rail'' name then ''Light Rail''
      else ''Unknown'')"

definition trip_type_of :: "icon_query \<Rightarrow> string" where
  \<comment> \<open>lines 117 to 133\<close>
  "trip_type_of ic =
     (case ic of
        NoIcon \<Rightarrow> ''Unknown''
      | IconRaises \<Rightarrow> ''Unknown''
      | Icon attr \<Rightarrow> classify_name (lower (case attr of None \<Rightarrow> [] | Some a \<Rightarrow> a)))"

section \<open>Time conversion\<close>

text \<open>
  A datetime carries its date as the proleptic Gregorian day number (date.toordinal(),
  day 1 is 0001-01-01) and its wall-clock fields; an aware datetime adds the offset of its
  fixed time zone, in minutes east of UTC.
\<close>

record naive_datetime =
  ordinal :: int
  hour :: nat
  minute :: nat
  second :: nat
  microsecond :: nat

record datetime = naive_datetime +
  utcoffset :: int



definition astimezone :: "int \<Rightarrow> datetime \<Rightarrow> datetime" where
  \<comment> \<open>dt.astimezone(tz) for the fixed zone of offset off: the same instant, read on the
      other wall clock\<close>
  "astimezone off dt =
     (let total = int (hour dt) * 60 + int (minute dt) - utcoffset dt + off
      in dt\<lparr>ordinal := ordinal dt + total div 1440,
             hour := nat ((total mod 1440) div 60),
             minute := nat (total mod 60),
             utcoffset := off\<rparr>)"

definition zfill :: "nat \<Rightarrow> string \<Rightarrow> string" where
  "zfill n s = replicate (n - length s) CHR ''0'' @ s"

definition ord2ymd :: "int \<Rightarrow> int \<times> int \<times> int" where
  \<comment> \<open>year, month and day of a day number\<close>
  "ord2ymd n =
     (let z = n + 305;
          era = z div 146097;
          doe = z - era * 146097;
          yoe = (doe - doe div 1460 + doe div 36524 - doe div 146096) div 365;
          doy = doe - (365 * yoe + yoe div 4 - yoe div 100);
          mp = (5 * doy + 2) div 153;
          d = doy - (153 * mp + 2) div 5 + 1;
          m = (if mp < 10 then mp + 3 else mp - 9);
          y = yoe + era * 400 + (if m \<le> 2 then 1 else 0)
      in (y, m, d))"

definition isoformat_naive :: "'a naive_datetime_scheme \<Rightarrow> string" where
  \<comment> \<open>isoformat() without the offset: the fraction is printed only when it is not zero\<close>
  "isoformat_naive dt =
     (case ord2ymd (ordinal dt) of
        (y, m, d) \<Rightarrow>
          zfill 4 (str_nat (nat y)) @ ''-'' @ zfill 2 (str_nat (nat m)) @ ''-''
          @ zfill 2 (str_nat (nat d)) @ ''T'' @ zfill 2 (str_nat (hour dt)) @ '':''
          @ zfill 2 (str_nat (minute dt)) @ '':'' @ zfill 2 (str_nat (second dt))
          @ (if microsecond dt = 0 then [] else ''.'' @ zfill 6 (str_nat (microsecond dt))))"

definition isoformat :: "datetime \<Rightarrow> string" where
  \<comment> \<open>isoformat() of an aware datetime\<close>
  "isoformat dt =
     isoformat_naive dt
     @ (if utcoffset dt < 0 then ''-'' else ''+'')
     @ zfill 2 (str_nat (nat (\<bar>utcoffset dt\<bar> div 60))) @ '':''
     @ zfill 2 (str_nat (nat (\<bar>utcoffset dt\<bar> mod 60)))"

definition parse_hhmm :: "string \<Rightarrow> py_error + (nat \<times> nat)" where
  \<comment> \<open>what the try block of to_utc_and_local can fail on: the unpacking of the split into
      exactly two parts, the two int() calls, and the range check of replace()\<close>
  "parse_hhmm time_text =
     (case split_on CHR '':'' time_text of
        [hh, mm] \<Rightarrow>
          (case py_int hh of
             Inl e \<Rightarrow> Inl e
           | Inr h \<Rightarrow>
               (case py_int mm of
                  Inl e \<Rightarrow> Inl e
                | Inr m \<Rightarrow>
                    if 0 \<le> h \<and> h < 24 \<and> 0 \<le> m \<and> m < 60 then Inr (nat h, nat m)
                    else Inl ValueError))
      | _ \<Rightarrow> Inl ValueError)"

definition to_utc_and_local_times :: "datetime \<Rightarrow> string \<Rightarrow> datetime \<times> datetime" where
  \<comment> \<open>local_time and utc_time of to_utc_and_local, or now twice from the except branch.
      The argument now is the reading of the clock in UTC that reaches the result: that of
      line 30 in the try block, that of line 36 after an exception.\<close>
  "to_utc_and_local_times now time_text =
     (case parse_hhmm time_text of
        Inr (h, m) \<Rightarrow>
          (let local_time = (astimezone 660 now)\<lparr>hour := h, minute := m, second := 0, microsecond := 0\<rparr>;
               utc_time = astimezone 0 local_time
           in (local_time, utc_time))
      | Inl e \<Rightarrow> (now, now))"

definition to_utc_and_local :: "datetime \<Rightarrow> string \<Rightarrow> string \<times> string" where
  "to_utc_and_local now time_text =
     (case to_utc_and_local_times now time_text of
        (local_time, utc_time) \<Rightarrow> (isoformat local_time, isoformat utc_time))"

section \<open>Output values, log and browser\<close>

datatype json =
    JNull
  | JStr string
  | JNum pyfloat
  | JArr "json list"
  | JObj "(string \<times> json) list"

definition json_of_name :: "string option \<Rightarrow> json" where
  \<comment> \<open>a value that is None or a str, as json.dump writes it\<close>
  "json_of_name v = (case v of None \<Rightarrow> JNull | Some s \<Rightarrow> JStr s)"

definition field :: "string \<Rightarrow> json \<Rightarrow> json option" where
  \<comment> \<open>the value under a key of an object\<close>
  "field k j = (case j of JObj kvs \<Rightarrow> map_of kvs k | _ \<Rightarrow> None)"

definition keys :: "json \<Rightarrow> string list" where
  "keys j = (case j of JObj kvs \<Rightarrow> map fst kvs | _ \<Rightarrow> [])"

datatype log_level = INFO | WARNING | ERROR

text \<open>One constructor for each logging call of the source, with the values it formats.\<close>

datatype log_entry =
    OpeningLoginPage                          \<comment> \<open>line 159\<close>
  | LoginFormNotFound                         \<comment> \<open>line 167\<close>
  | FillingLoginForm                          \<comment> \<open>line 171\<close>
  | WaitingForLogin                           \<comment> \<open>line 176\<close>
  | LoginSuccessful                           \<comment> \<open>line 182\<close>
  | LoginFailed string                        \<comment> \<open>line 195, with the text after "Login failed. "\<close>
  | LoginTimeout                              \<comment> \<open>line 199\<close>
  | DetectedCards nat                         \<comment> \<open>line 209\<close>
  | ProcessingCard nat nat string "pyfloat option"   \<comment> \<open>line 272\<close>
  | ErrorProcessingCard nat                   \<comment> \<open>line 280\<close>
  | NoTripItems "string option"               \<comment> \<open>line 92\<close>
  | FoundTrips nat "string option"            \<comment> \<open>line 96\<close>
  | SkippedTripItem py_error                  \<comment> \<open>line 148\<close>
  | SavedTransactions nat                     \<comment> \<open>line 302\<close>
  | SavedBalances                             \<comment> \<open>line 303\<close>
  | DemoDataWritten                           \<comment> \<open>line 347\<close>

fun level :: "log_entry \<Rightarrow> log_level" where
  "level LoginFormNotFound = ERROR"
| "level (LoginFailed m) = ERROR"
| "level LoginTimeout = ERROR"
| "level (ErrorProcessingCard i) = WARNING"
| "level (NoTripItems c) = WARNING"
| "level (SkippedTripItem e) = WARNING"
| "level e = INFO"

text \<open>What the program does to the browser, in order.\<close>

datatype browser_event =
    Launch
  | Goto string
  | Fill string string
  | Click string
  | ClickThumb nat
  | Close

section \<open>Extraction of trip rows\<close>

text \<open>
  A trip row as the page shows it: for each selector the inner text of the element
  query_selector finds, None when it finds none; the icon query; and the reading of the
  clock in UTC that to_utc_and_local takes at this row. Exceptions are modelled where the
  source handles them and the model has a cause for them (float() here); the browser calls
  themselves are taken to return.
\<close>

record item =
  date_el :: "string option"           \<comment> \<open>.date\<close>
  from_el :: "string option"           \<comment> \<open>.from\<close>
  to_el :: "string option"             \<comment> \<open>.to\<close>
  amount_span_el :: "string option"    \<comment> \<open>.amount span\<close>
  amount_el :: "string option"         \<comment> \<open>.amount\<close>
  icon_el :: icon_query
  clock :: datetime

definition arrow :: string where
  \<comment> \<open>the character U+2192, in UTF-8\<close>
  "arrow = [CHR 0xE2, CHR 0x86, CHR 0x92]"

datatype item_result =
    Continue              \<comment> \<open>line 105\<close>
  | Raised py_error       \<comment> \<open>caught at line 147\<close>
  | Appended json         \<comment> \<open>line 136\<close>

definition process_item :: "string option \<Rightarrow> item \<Rightarrow> item_result" where
  \<comment> \<open>the body of the loop of lines 98 to 148\<close>
  "process_item card_name it =
     (case (date_el it, from_el it, to_el it,
            (case amount_span_el it of Some a \<Rightarrow> Some a | None \<Rightarrow> amount_el it)) of
        (Some time_inner, Some from_inner, Some to_inner, Some amount_inner) \<Rightarrow>
          (let time_text = strip time_inner;
               from_loc = strip from_inner;
               to_loc = strip to_inner
           in case parse_amount amount_inner of
                Inl e \<Rightarrow> Raised e
              | Inr amt \<Rightarrow>
                  (let trip_type = trip_type_of (icon_el it)
                   in case to_utc_and_local (clock it) time_text of
                        (time_local, time_utc) \<Rightarrow>
                          Appended (JObj
                            [(''time_local'', JStr time_local),
                             (''time_utc'', JStr time_utc),
                             (''amount'', JNum amt),
                             (''currency'', JStr ''AUD''),
                             (''description'',
                                JStr (from_loc @ '' '' @ arrow @ '' '' @ to_loc @ '' ('' @ trip_type @ '')'')),
                             (''card_id'', json_of_name card_name),
                             (''trip_type'', JStr trip_type),
                             (''tap_on_location'', JStr from_loc),
                             (''tap_off_location'', JStr to_loc)])))
      | _ \<Rightarrow> Continue)"

fun item_loop :: "string option \<Rightarrow> item list \<Rightarrow> json list \<times> log_entry list \<Rightarrow> json list \<times> log_entry list" where
  \<comment> \<open>the for loop of line 98, on the list trips and the log\<close>
  "item_loop card_name [] acc = acc"
| "item_loop card_name (it # items) (trips, lg) =
     item_loop card_name items
       (case process_item card_name it of
          Continue \<Rightarrow> (trips, lg)
        | Raised e \<Rightarrow> (trips, lg @ [SkippedTripItem e])
        | Appended t \<Rightarrow> (trips @ [t], lg))"

datatype activity =
    SelectorTimeout         \<comment> \<open>wait_for_selector(".card-activity-item") timed out\<close>
  | Items "item list"       \<comment> \<open>the rows query_selector_all returns\<close>

definition extract_trip_items :: "activity \<Rightarrow> string option \<Rightarrow> json list \<times> log_entry list" where
  \<comment> \<open>the trips returned and the log lines written\<close>
  "extract_trip_items page card_name =
     (case page of
        SelectorTimeout \<Rightarrow> ([], [NoTripItems card_name])
      | Items items \<Rightarrow> item_loop card_name items ([], [FoundTrips (length items) card_name]))"

section \<open>Card name and balance\<close>

fun wait_for_value_change :: "string option list \<Rightarrow> string option \<Rightarrow> string \<Rightarrow> string option" where
  \<comment> \<open>the polling loop of lines 62 to 67. The first argument lists the readings of
      get_first_visible_text inside the loop, one for each turn that starts before max_wait
      has passed; the second is the reading of line 67, taken after the wait.\<close>
  "wait_for_value_change [] final previous_value = final"
| "wait_for_value_change (v # polls) final previous_value =
     (if truthy v \<and> v \<noteq> Some previous_value then v
      else wait_for_value_change polls final previous_value)"

definition is_amount :: "string \<Rightarrow> bool" where
  \<comment> \<open>lines 79 and 80\<close>
  "is_amount line =
     (isdigit (remove_char CHR '' '' (remove_char CHR ''-'' (remove_char CHR ''.'' line)))
      \<or> (isdigit (remove_char CHR '' '' (remove_char CHR ''-'' (remove_char CHR ''.''
                    (remove_char CHR ''$'' line))))
         \<and> py_in ''.'' line))"

fun card_info_loop :: "string list \<Rightarrow> string option \<times> string option \<Rightarrow> string option \<times> string option" where
  \<comment> \<open>the for loop of line 75, on the pair (card_name, balance)\<close>
  "card_info_loop [] acc = acc"
| "card_info_loop (line # rest) (card_name, balance) =
     card_info_loop rest
       (if startswith line ''$'' then (card_name, Some line)
        else if \<not> is_amount line \<and> line \<noteq> [] \<and> 0 < length line \<and> length line < 50
             then (Some line, balance)
             else (card_name, balance))"

definition parse_card_info_from_text :: "string \<Rightarrow> string option \<times> string option" where
  "parse_card_info_from_text text =
     (let lines = map strip (filter (\<lambda>line. strip line \<noteq> []) (split_on CHR 0x0A text))
      in case card_info_loop lines (None, None) of
           (card_name, balance) \<Rightarrow>
             ((if truthy card_name then map_option strip card_name else None), balance))"

definition parse_balance :: "string option \<Rightarrow> pyfloat option" where
  \<comment> \<open>lines 264 to 270 (and 217 to 223): bal stays None when there is no text or when
      float() raises\<close>
  "parse_balance balance_text =
     (case balance_text of
        None \<Rightarrow> None
      | Some b \<Rightarrow>
          if b = [] then None
          else (case py_float (strip (remove_char CHR '','' (remove_char CHR ''$'' b))) of
                  Inl e \<Rightarrow> None
                | Inr v \<Rightarrow> Some v))"

record balance =
  card_id :: "string option"
  balance :: pyfloat
  currency :: string

definition balance_entry :: "string option \<Rightarrow> pyfloat \<Rightarrow> balance" where
  \<comment> \<open>the dict appended to balance_list\<close>
  "balance_entry card_name bal = \<lparr>card_id = card_name, balance = bal, currency = ''AUD''\<rparr>"

definition json_of_balance :: "balance \<Rightarrow> json" where
  "json_of_balance b =
     JObj [(''card_id'', json_of_name (card_id b)), (''balance'', JNum (balance b)),
           (''currency'', JStr (currency b))]"

section \<open>The cards of a page\<close>

datatype sibling_obs =
    NoSibling               \<comment> \<open>no next element sibling\<close>
  | SiblingText string      \<comment> \<open>its inner text\<close>
  | SiblingRaises           \<comment> \<open>evaluate_handle or inner_text raised\<close>

text \<open>
  What the page shows for one card: the sibling of its thumb, whether the click on the thumb
  returns (or raises), the readings of the card name (see \<open>wait_for_value_change\<close>; when
  no wait is made, \<open>name_final\<close> is the one reading of line 254 or 215), the text of the
  card value, and the trip list.
\<close>

record card =
  sibling :: sibling_obs
  click_ok :: bool
  name_polls :: "string option list"
  name_final :: "string option"
  value_text :: "string option"
  trips_page :: activity

record loop_state =
  prev_name :: string
  all_transactions :: "json list"
  balance_list :: "balance list"
  loop_log :: "log_entry list"
  loop_browser :: "browser_event list"

definition thumb_info :: "card \<Rightarrow> string option \<times> string option" where
  \<comment> \<open>lines 234 to 243: card_name_from_thumb and balance_from_thumb\<close>
  "thumb_info c =
     (case sibling c of
        SiblingText sibling_text \<Rightarrow>
          if sibling_text \<noteq> [] then parse_card_info_from_text sibling_text else (None, None)
      | _ \<Rightarrow> (None, None))"

definition resolve_card_name :: "nat \<Rightarrow> card \<Rightarrow> string \<Rightarrow> string" where
  \<comment> \<open>lines 248 to 256: the name of card idx, given prev_name\<close>
  "resolve_card_name idx c prev =
     (let displayed =
            (if prev \<noteq> [] then wait_for_value_change (name_polls c) (name_final c) prev
             else name_final c);
          from_page =
            (case displayed of
               None \<Rightarrow> ''Card_'' @ str_nat idx
             | Some n \<Rightarrow> if n = [] then ''Card_'' @ str_nat idx else n)
      in case fst (thumb_info c) of
           None \<Rightarrow> from_page
         | Some n \<Rightarrow> if n = [] then from_page else n)"

definition card_balance_text :: "card \<Rightarrow> string option" where
  \<comment> \<open>lines 259 to 262: balance_text\<close>
  "card_balance_text c =
     (let balance_from_thumb = snd (thumb_info c)
      in if truthy balance_from_thumb then balance_from_thumb else value_text c)"

definition process_card :: "nat \<Rightarrow> nat \<Rightarrow> card \<Rightarrow> loop_state \<Rightarrow> loop_state" where
  \<comment> \<open>the body of the loop of lines 231 to 281; when the click on the thumb raises, the
      handler of line 279 logs a warning and the loop goes on\<close>
  "process_card idx num_cards c st =
     (if \<not> click_ok c
      then st\<lparr>loop_log := loop_log st @ [ErrorProcessingCard idx],
              loop_browser := loop_browser st @ [ClickThumb idx]\<rparr>
      else
        (let card_name = resolve_card_name idx c (prev_name st);
             bal = parse_balance (card_balance_text c)
         in case extract_trip_items (trips_page c) (Some card_name) of
              (trips, lg) \<Rightarrow>
                \<lparr>prev_name = card_name,
                 all_transactions = all_transactions st @ trips,
                 balance_list = balance_list st
                    @ (case bal of None \<Rightarrow> [] | Some b \<Rightarrow> [balance_entry (Some card_name) b]),
                 loop_log = loop_log st @ [ProcessingCard idx num_cards card_name bal] @ lg,
                 loop_browser = loop_browser st @ [ClickThumb idx]\<rparr>))"

fun card_loop :: "nat \<Rightarrow> nat \<Rightarrow> card list \<Rightarrow> loop_state \<Rightarrow> loop_state" where
  \<comment> \<open>for idx, thumb in enumerate(card_thumbs, start=idx)\<close>
  "card_loop idx num_cards [] st = st"
| "card_loop idx num_cards (c # cs) st =
     card_loop (Suc idx) num_cards cs (process_card idx num_cards c st)"

definition single_card :: "card \<Rightarrow> loop_state \<Rightarrow> loop_state" where
  \<comment> \<open>lines 215 to 227, when no thumb is found: the name may be None here\<close>
  "single_card c st =
     (let card_name = name_final c;
          bal = parse_balance (value_text c)
      in case extract_trip_items (trips_page c) card_name of
           (trips, lg) \<Rightarrow>
             st\<lparr>all_transactions := all_transactions st @ trips,
                balance_list := balance_list st
                   @ (case bal of None \<Rightarrow> [] | Some b \<Rightarrow> [balance_entry card_name b]),
                loop_log := loop_log st @ lg\<rparr>)"

section \<open>The scraping routine\<close>

datatype error_obs =
    NoErrorElement          \<comment> \<open>query_selector found no error element\<close>
  | ErrorText string        \<comment> \<open>its inner text\<close>
  | ErrorRaises             \<comment> \<open>the query or inner_text raised\<close>

text \<open>
  The portal as one run meets it: whether the two fields of the login form appear before
  the timeout, whether the card name appears after the login, what the page shows when it
  does not, the thumbs found (None when the query raises), the card shown when there is no
  thumb, and the reading of the local clock when the balances are written.
\<close>

record page =
  login_form :: bool
  logged_in :: bool
  still_login :: bool
  error_el :: error_obs
  card_thumbs :: "card list option"
  shown :: card
  final_clock :: naive_datetime

record run_state =
  logged :: "log_entry list"
  browser :: "browser_event list"
  files :: "string \<rightharpoonup> json"

definition login_url :: string where
  "login_url = ''https://transportnsw.info/tickets-fares/opal-login#/login''"

definition balance_json :: "balance list \<Rightarrow> string \<Rightarrow> json" where
  \<comment> \<open>lines 288 to 300: the value dumped to balance.json\<close>
  "balance_json bl last_updated =
     (if length bl \<le> 1
      then JObj [(''balance'', (case bl of [] \<Rightarrow> JNull | b # _ \<Rightarrow> JNum (balance b))),
                 (''currency'', JStr ''AUD''),
                 (''card_id'', (case bl of [] \<Rightarrow> JNull | b # _ \<Rightarrow> json_of_name (card_id b))),
                 (''last_updated'', JStr last_updated)]
      else JObj [(''cards'', JArr (map json_of_balance bl)), (''last_updated'', JStr last_updated)])"

definition collect :: "page \<Rightarrow> loop_state \<Rightarrow> loop_state" where
  \<comment> \<open>lines 203 to 281: the pass over the cards\<close>
  "collect pg st =
     (let thumbs = (case card_thumbs pg of None \<Rightarrow> [] | Some cs \<Rightarrow> cs);
          num_cards = length thumbs;
          st1 = st\<lparr>loop_log := loop_log st @ [DetectedCards num_cards]\<rparr>
      in if num_cards = 0 then single_card (shown pg) st1
         else card_loop 1 num_cards thumbs st1)"

definition logged_in_state :: "string \<Rightarrow> string \<Rightarrow> loop_state" where
  \<comment> \<open>the locals of lines 211, 212 and 229 (prev_name is set there, and read only in the
      loop), with the log and the browser as they stand after the login\<close>
  "logged_in_state username password =
     \<lparr>prev_name = [], all_transactions = [], balance_list = [],
      loop_log = [OpeningLoginPage, FillingLoginForm, WaitingForLogin, LoginSuccessful],
      loop_browser = [Launch, Goto login_url, Fill ''#usernameCrtl'' username,
                      Fill ''#passwordCtrl'' password, Click ''button.opal-username-login:visible'']\<rparr>"

definition scrape_opal :: "string \<Rightarrow> string \<Rightarrow> page \<Rightarrow> (string \<rightharpoonup> json) \<Rightarrow> run_state" where
  "scrape_opal username password pg fs =
     (let log0 = [OpeningLoginPage];
          br0 = [Launch, Goto login_url]
      in if \<not> login_form pg
         then \<lparr>logged = log0 @ [LoginFormNotFound], browser = br0 @ [Close], files = fs\<rparr>
         else
           (let log1 = log0 @ [FillingLoginForm, WaitingForLogin];
                br1 = br0 @ [Fill ''#usernameCrtl'' username, Fill ''#passwordCtrl'' password,
                             Click ''button.opal-username-login:visible'']
            in if \<not> logged_in pg
               then
                 (let error_msg = (case error_el pg of ErrorText t \<Rightarrow> Some (strip t) | _ \<Rightarrow> None)
                  in if still_login pg \<or> truthy error_msg
                     then \<lparr>logged = log1 @ [LoginFailed
                                 (case error_msg of
                                    None \<Rightarrow> ''Please check your username or password.''
                                  | Some m \<Rightarrow> if m = [] then ''Please check your username or password.'' else m)],
                           browser = br1 @ [Close], files = fs\<rparr>
                     else \<lparr>logged = log1 @ [LoginTimeout], browser = br1 @ [Close], files = fs\<rparr>)
               else
                 (let st = collect pg (logged_in_state username password);
                      fs1 = fs(''transactions.json'' \<mapsto> JArr (all_transactions st));
                      fs2 = fs1(''balance.json'' \<mapsto>
                                 balance_json (balance_list st) (isoformat_naive (final_clock pg)))
                  in \<lparr>logged = loop_log st @ [SavedTransactions (length (all_transactions st)), SavedBalances],
                      browser = loop_browser st @ [Close],
                      files = fs2\<rparr>)))"

section \<open>Demo mode and entry point\<close>

definition sample_transactions :: "json list" where
  "sample_transactions =
     [JObj [(''time_local'', JStr ''2025-11-05T10:47:00+11:00''),
            (''time_utc'', JStr ''2025-11-04T23:47:00Z''),
            (''amount'', JNum (fneg (Finite False (2226 / 100)))),
            (''currency'', JStr ''AUD''),
            (''description'', JStr (''International '' @ arrow @ '' Rhodes (Train)'')),
            (''card_id'', JStr ''Jack''),
            (''trip_type'', JStr ''Train''),
            (''tap_on_location'', JStr ''International''),
            (''tap_off_location'', JStr ''Rhodes'')],
      JObj [(''time_local'', JStr ''2025-11-05T09:15:00+11:00''),
            (''time_utc'', JStr ''2025-11-04T22:15:00Z''),
            (''amount'', JNum (fneg (Finite False (320 / 100)))),
            (''currency'', JStr ''AUD''),
            (''description'', JStr (''Rhodes '' @ arrow @ '' Meadowbank (Bus)'')),
            (''card_id'', JStr ''Work Card''),
            (''trip_type'', JStr ''Bus''),
            (''tap_on_location'', JStr ''Rhodes''),
            (''tap_off_location'', JStr ''Meadowbank'')]]"

definition sample_cards :: "json list" where
  "sample_cards =
     [JObj [(''card_id'', JStr ''Jack''), (''balance'', JNum (Finite False (97 / 10))),
            (''currency'', JStr ''AUD'')],
      JObj [(''card_id'', JStr ''Work Card''), (''balance'', JNum (Finite False (205 / 10))),
            (''currency'', JStr ''AUD'')]]"

definition run_demo :: "naive_datetime \<Rightarrow> (string \<rightharpoonup> json) \<Rightarrow> run_state" where
  \<comment> \<open>the argument now is the reading of datetime.now() at line 339\<close>
  "run_demo now fs =
     (let sample_balances = JObj [(''cards'', JArr sample_cards),
                                  (''last_updated'', JStr (isoformat_naive now))];
          fs1 = fs(''transactions.json'' \<mapsto> JArr sample_transactions);
          fs2 = fs1(''balance.json'' \<mapsto> sample_balances)
      in \<lparr>logged = [DemoDataWritten], browser = [], files = fs2\<rparr>)"

definition main :: "bool \<Rightarrow> string \<Rightarrow> string \<Rightarrow> naive_datetime \<Rightarrow> page \<Rightarrow> (string \<rightharpoonup> json) \<Rightarrow> run_state" where
  \<comment> \<open>demo is args.demo; the two strings are what input() returns when it is called\<close>
  "main demo username_input password_input now pg fs =
     (if demo then run_demo now fs
      else scrape_opal (strip username_input) (strip password_input) pg fs)"

section \<open>Notions of the specification\<close>

definition occurs :: "string \<Rightarrow> string \<Rightarrow> bool" where
  \<comment> \<open>sub is a substring of s\<close>
  "occurs sub s = (\<exists>p q. s = p @ sub @ q)"

definition classify_spec :: "string \<Rightarrow> string" where
  \<comment> \<open>the classification as the specification words it: the five substrings train,
      metro, bus, ferry and light-rail, tried in this order on the lowered name\<close>
  "classify_spec name =
     (if py_in ''train'' name then ''Train''
      else if py_in ''metro'' name then ''Metro''
      else if py_in ''bus'' name then ''Bus''
      else if py_in ''ferry'' name then ''Ferry''
      else if py_in ''light-rail'' name then ''Light Rail''
      else ''Unknown'')"

definition trip_invariant :: "json \<Rightarrow> bool" where
  \<comment> \<open>the currency is AUD, and the description is built from the record's own
      tap-on location, tap-off location and trip type\<close>
  "trip_invariant t =
     (field ''currency'' t = Some (JStr ''AUD'')
      \<and> (case (field ''tap_on_location'' t, field ''tap_off_location'' t, field ''trip_type'' t) of
            (Some (JStr a), Some (JStr b), Some (JStr ty)) \<Rightarrow>
              field ''description'' t
                = Some (JStr (a @ '' '' @ arrow @ '' '' @ b @ '' ('' @ ty @ '')''))
          | _ \<Rightarrow> False))"

definition amount_text_of :: "item \<Rightarrow> string option" where
  \<comment> \<open>the text of the amount element of a row, if it has one\<close>
  "amount_text_of it = (case amount_span_el it of Some a \<Rightarrow> Some a | None \<Rightarrow> amount_el it)"

definition row_parses :: "item \<Rightarrow> bool" where
  \<comment> \<open>a row that parses: it has a time, an origin, a destination and an amount, and its
      amount text is read without an exception\<close>
  "row_parses it =
     (date_el it \<noteq> None \<and> from_el it \<noteq> None \<and> to_el it \<noteq> None
      \<and> (case amount_text_of it of
            None \<Rightarrow> False
          | Some a \<Rightarrow> (case parse_amount a of Inl e \<Rightarrow> False | Inr v \<Rightarrow> True)))"

definition missing_field :: "item \<Rightarrow> bool" where
  \<comment> \<open>a row without one of time, from, to, amount\<close>
  "missing_field it =
     (date_el it = None \<or> from_el it = None \<or> to_el it = None \<or> amount_text_of it = None)"

definition parsed_rows :: "card \<Rightarrow> nat" where
  \<comment> \<open>the number of rows of a card that parse\<close>
  "parsed_rows c =
     (case trips_page c of SelectorTimeout \<Rightarrow> 0 | Items items \<Rightarrow> length (filter row_parses items))"

definition visited_cards :: "page \<Rightarrow> card list" where
  \<comment> \<open>the cards a run visits: those whose thumb could be clicked, or the one card shown
      when the page has no thumb\<close>
  "visited_cards pg =
     (case card_thumbs pg of
        None \<Rightarrow> [shown pg]
      | Some cs \<Rightarrow> if cs = [] then [shown pg] else filter click_ok cs)"

definition has_balance :: "card \<Rightarrow> bool" where
  \<comment> \<open>a card of the loop whose balance text is read as a number\<close>
  "has_balance c = (parse_balance (card_balance_text c) \<noteq> None)"

definition n_balances :: "page \<Rightarrow> nat" where
  \<comment> \<open>the number of balances a run captures\<close>
  "n_balances pg =
     (case card_thumbs pg of
        None \<Rightarrow> (if parse_balance (value_text (shown pg)) \<noteq> None then 1 else 0)
      | Some cs \<Rightarrow>
          if cs = [] then (if parse_balance (value_text (shown pg)) \<noteq> None then 1 else 0)
          else length (filter (\<lambda>c. click_ok c \<and> has_balance c) cs))"

definition credentials_rejected :: "page \<Rightarrow> bool" where
  \<comment> \<open>after the login attempt the card name does not appear, and the login form is still
      shown or the page shows an error message\<close>
  "credentials_rejected pg =
     (\<not> logged_in pg
      \<and> (still_login pg \<or> (case error_el pg of ErrorText t \<Rightarrow> strip t \<noteq> [] | _ \<Rightarrow> False)))"

definition cards_of :: "json \<Rightarrow> json list option" where
  \<comment> \<open>the sequence under the key cards\<close>
  "cards_of j = (case field ''cards'' j of Some (JArr cs) \<Rightarrow> Some cs | _ \<Rightarrow> None)"

definition written_transactions :: "run_state \<Rightarrow> json list option" where
  \<comment> \<open>the sequence written to transactions.json\<close>
  "written_transactions r =
     (case files r ''transactions.json'' of Some (JArr ts) \<Rightarrow> Some ts | _ \<Rightarrow> None)"

definition sample_clock :: datetime where
  \<comment> \<open>2025-11-05 14:29:07.000123 UTC\<close>
  "sample_clock = \<lparr>ordinal = 739560, hour = 14, minute = 29, second = 7, microsecond = 123,
                    utcoffset = 0\<rparr>"

definition sample_item :: "string \<Rightarrow> item" where
  \<comment> \<open>a complete bus row with the given amount text\<close>
  "sample_item amount_text =
     \<lparr>date_el = Some ''09:15'', from_el = Some ''Rhodes'', to_el = Some ''Meadowbank'',
      amount_span_el = Some amount_text, amount_el = None, icon_el = Icon (Some ''bus''),
      clock = sample_clock\<rparr>"

definition appended :: "string option \<Rightarrow> item \<Rightarrow> json list" where
  \<comment> \<open>what one row adds to the list trips\<close>
  "appended card_name it = (case process_item card_name it of Appended t \<Rightarrow> [t] | _ \<Rightarrow> [])"

definition sample_trip :: json where
  \<comment> \<open>the record of the row \<open>sample_item ''-$3.20''\<close> on the card Jack\<close>
  "sample_trip =
     JObj [(''time_local'', JStr ''2025-11-06T09:15:00+11:00''),
           (''time_utc'', JStr ''2025-11-05T22:15:00+00:00''),
           (''amount'', JNum (Finite True (320 / 100))),
           (''currency'', JStr ''AUD''),
           (''description'', JStr (''Rhodes '' @ arrow @ '' Meadowbank (Bus)'')),
           (''card_id'', JStr ''Jack''),
           (''trip_type'', JStr ''Bus''),
           (''tap_on_location'', JStr ''Rhodes''),
           (''tap_off_location'', JStr ''Meadowbank'')]"

definition card_jack :: card where
  \<comment> \<open>a card named by the text beside its thumb, with three rows: one complete, one
      without a time, one with an amount that is no number\<close>
  "card_jack =
     \<lparr>sibling = SiblingText (''Jack'' @ [CHR 0x0A] @ ''$9.70''), click_ok = True, name_polls = [],
      name_final = Some ''Jack'', value_text = Some ''$9.70'',
      trips_page = Items [sample_item ''-$3.20'', (sample_item ''-$22.26'')\<lparr>date_el := None\<rparr>,
                          sample_item ''N/A'']\<rparr>"

definition card_same :: card where
  \<comment> \<open>a card without sibling text, while the page goes on showing the name Jack\<close>
  "card_same =
     \<lparr>sibling = NoSibling, click_ok = True, name_polls = [Some ''Jack'', Some ''Jack''],
      name_final = Some ''Jack'', value_text = Some ''$20.50'', trips_page = SelectorTimeout\<rparr>"

definition card_blank :: card where
  \<comment> \<open>a card without sibling text, while the page shows no name and no value\<close>
  "card_blank =
     \<lparr>sibling = NoSibling, click_ok = True, name_polls = [None, Some []],
      name_final = None, value_text = None, trips_page = SelectorTimeout\<rparr>"

definition sample_page :: "card list \<Rightarrow> page" where
  \<comment> \<open>a page on which the login succeeds, with the given thumbs\<close>
  "sample_page cards =
     \<lparr>login_form = True, logged_in = True, still_login = False, error_el = NoErrorElement,
      card_thumbs = Some cards, shown = card_blank,
      final_clock = \<lparr>ordinal = 739560, hour = 14, minute = 30, second = 0, microsecond = 0\<rparr>\<rparr>"

section \<open>Facts about the text operations\<close>

lemmas text_defs = strip_def isspace_def remove_char_def is_digit_def isdigit_def lower_def
  lower_char_def startswith_def truthy_def digit_val_def digits_val_def split_sign_def

lemmas float_defs = py_float_def parse_decimal_def parse_exponent_def pow10_def fneg_def

lemma startswith_iff: "startswith s p \<longleftrightarrow> (\<exists>q. s = p @ q)"
  unfolding startswith_def
  by (metis append_eq_conv_conj append_take_drop_id)

lemma py_in_occurs: "py_in sub s \<longleftrightarrow> occurs sub s"
proof (induction s)
  case Nil
  then show ?case by (auto simp: occurs_def)
next
  case (Cons c cs)
  show ?case
  proof
    assume "py_in sub (c # cs)"
    then consider "startswith (c # cs) sub" | "py_in sub cs" by auto
    then show "occurs sub (c # cs)"
    proof cases
      case 1
      then obtain q where "c # cs = sub @ q" by (auto simp: startswith_iff)
      then have "c # cs = [] @ sub @ q" by simp
      then show ?thesis unfolding occurs_def by blast
    next
      case 2
      with Cons.IH obtain p q where "cs = p @ sub @ q" by (auto simp: occurs_def)
      then have "c # cs = (c # p) @ sub @ q" by simp
      then show ?thesis unfolding occurs_def by blast
    qed
  next
    assume "occurs sub (c # cs)"
    then obtain p q where pq: "c # cs = p @ sub @ q" by (auto simp: occurs_def)
    show "py_in sub (c # cs)"
    proof (cases p)
      case Nil
      with pq have "startswith (c # cs) sub" by (auto simp: startswith_iff)
      then show ?thesis by simp
    next
      case (Cons a p')
      with pq have "cs = p' @ sub @ q" by simp
      then have "occurs sub cs" unfolding occurs_def by blast
      with Cons.IH have "py_in sub cs" by blast
      then show ?thesis by simp
    qed
  qed
qed

lemma py_in_char: "py_in [c] s \<longleftrightarrow> c \<in> set s"
  by (induction s) (auto simp: startswith_def)

lemma set_strip: "set (strip s) \<subseteq> set s"
proof -
  have "set (strip s) = set (dropWhile isspace (rev (dropWhile isspace s)))"
    by (simp add: strip_def)
  also have "\<dots> \<subseteq> set (rev (dropWhile isspace s))"
    by (rule set_dropWhileD [THEN subsetI])
  also have "\<dots> \<subseteq> set s"
    using set_dropWhileD by fastforce
  finally show ?thesis .
qed

lemma in_set_dropWhile: "x \<in> set xs \<Longrightarrow> \<not> P x \<Longrightarrow> x \<in> set (dropWhile P xs)"
  by (induction xs) auto

lemma minus_in_strip: "CHR ''-'' \<in> set (strip s) \<longleftrightarrow> CHR ''-'' \<in> set s"
proof
  assume "CHR ''-'' \<in> set (strip s)"
  then show "CHR ''-'' \<in> set s" using set_strip by blast
next
  assume a: "CHR ''-'' \<in> set s"
  have ns: "\<not> isspace CHR ''-''" by (simp add: isspace_def)
  from a ns have "CHR ''-'' \<in> set (dropWhile isspace s)" by (rule in_set_dropWhile)
  then have "CHR ''-'' \<in> set (rev (dropWhile isspace s))" by simp
  then have "CHR ''-'' \<in> set (dropWhile isspace (rev (dropWhile isspace s)))"
    using ns by (rule in_set_dropWhile)
  then show "CHR ''-'' \<in> set (strip s)" by (simp add: strip_def)
qed

lemma no_minus_clean: "CHR ''-'' \<notin> set (clean_amount t)"
proof -
  have "set (clean_amount t) \<subseteq> set (remove_char CHR ''-'' (remove_char CHR '','' (remove_char CHR ''$'' t)))"
    unfolding clean_amount_def by (rule set_strip)
  then show ?thesis by (auto simp: remove_char_def)
qed

lemma split_sign_neg: "split_sign s = (True, b) \<Longrightarrow> CHR ''-'' \<in> set s"
  by (auto simp: split_sign_def split: list.splits if_splits)

lemma py_float_negative: "py_float s = Inr v \<Longrightarrow> is_negative v \<Longrightarrow> CHR ''-'' \<in> set s"
proof -
  assume a: "py_float s = Inr v" and n: "is_negative v"
  obtain neg body where sb: "split_sign (remove_char CHR ''_'' (strip s)) = (neg, body)"
    by (cases "split_sign (remove_char CHR ''_'' (strip s))")
  from a n sb have "neg"
    by (auto simp: py_float_def Let_def is_negative_def split: if_splits option.splits)
  with sb have "CHR ''-'' \<in> set (remove_char CHR ''_'' (strip s))"
    using split_sign_neg [of "remove_char CHR ''_'' (strip s)" body] by simp
  then have "CHR ''-'' \<in> set (strip s)" by (auto simp: remove_char_def)
  then show ?thesis using set_strip by blast
qed

section \<open>Amount parsing\<close>

text \<open>
  Claim C2, as the code has it. The amount text loses the dollar sign, the commas and the
  minus signs and is read by float(); the result is negated exactly when a minus sign occurs
  in the text, so "-$22.26" gives -22.26 and "$20.50" gives 20.50. A text with nothing left
  after the cleaning gives 0.0 (with the sign of the text). For any other text that float()
  rejects, the exception reaches the handler of the row: the amount is no number, and the row
  is skipped.
\<close>

theorem C2_parse_amount:
  "parse_amount ''-$22.26'' = Inr (Finite True (2226 / 100))
   \<and> parse_amount ''$20.50'' = Inr (Finite False (2050 / 100))
   \<and> (clean_amount (strip t) = [] \<longrightarrow> parse_amount t = Inr (Finite (CHR ''-'' \<in> set t) 0))
   \<and> (clean_amount (strip t) \<noteq> [] \<and> py_float (clean_amount (strip t)) = Inr v \<longrightarrow>
        \<not> is_negative v
        \<and> parse_amount t = Inr (if CHR ''-'' \<in> set t then fneg v else v))
   \<and> (clean_amount (strip t) \<noteq> [] \<and> py_float (clean_amount (strip t)) = Inl e \<longrightarrow>
        parse_amount t = Inl e
        \<and> process_item card_name \<lparr>date_el = Some d, from_el = Some f, to_el = Some g,
             amount_span_el = Some t, amount_el = a, icon_el = ic, clock = now\<rparr> = Raised e)"
proof -
  have 1: "parse_amount ''-$22.26'' = Inr (Finite True (2226 / 100))"
    by (simp add: parse_amount_def clean_amount_def text_defs float_defs)
  have 2: "parse_amount ''$20.50'' = Inr (Finite False (2050 / 100))"
    by (simp add: parse_amount_def clean_amount_def text_defs float_defs)
  have m: "py_in ''-'' (strip t) \<longleftrightarrow> CHR ''-'' \<in> set t"
    by (simp add: py_in_char minus_in_strip)
  have 3: "clean_amount (strip t) = [] \<longrightarrow> parse_amount t = Inr (Finite (CHR ''-'' \<in> set t) 0)"
    by (simp add: parse_amount_def m fneg_def)
  have 4: "clean_amount (strip t) \<noteq> [] \<and> py_float (clean_amount (strip t)) = Inr v \<longrightarrow>
        \<not> is_negative v \<and> parse_amount t = Inr (if CHR ''-'' \<in> set t then fneg v else v)"
    using py_float_negative [of "clean_amount (strip t)" v] no_minus_clean [of "strip t"]
    by (auto simp: parse_amount_def m)
  have 5: "clean_amount (strip t) \<noteq> [] \<and> py_float (clean_amount (strip t)) = Inl e \<longrightarrow>
        parse_amount t = Inl e
        \<and> process_item card_name \<lparr>date_el = Some d, from_el = Some f, to_el = Some g,
             amount_span_el = Some t, amount_el = a, icon_el = ic, clock = now\<rparr> = Raised e"
    by (simp add: parse_amount_def process_item_def)
  from 1 2 3 4 5 show ?thesis by blast
qed

theorem C2_parse_amount_witness:
  "clean_amount (strip ''-'') = [] \<and> parse_amount ''-'' = Inr (Finite True 0)
   \<and> clean_amount (strip ''-$1,234.50'') \<noteq> []
   \<and> py_float (clean_amount (strip ''-$1,234.50'')) = Inr (Finite False (2469 / 2))
   \<and> parse_amount ''-$1,234.50'' = Inr (Finite True (2469 / 2))
   \<and> clean_amount (strip ''N/A'') \<noteq> []
   \<and> py_float (clean_amount (strip ''N/A'')) = Inl ValueError
   \<and> parse_amount ''N/A'' = Inl ValueError
   \<and> process_item (Some ''Jack'') (sample_item ''N/A'') = Raised ValueError"
proof -
  have a: "clean_amount (strip ''-'') = []"
    by (simp add: clean_amount_def text_defs)
  have b: "clean_amount (strip ''-$1,234.50'') \<noteq> []"
    by (simp add: clean_amount_def text_defs)
  have b': "py_float (clean_amount (strip ''-$1,234.50'')) = Inr (Finite False (2469 / 2))"
    by (simp add: clean_amount_def text_defs float_defs)
  have c: "clean_amount (strip ''N/A'') \<noteq> []"
    by (simp add: clean_amount_def text_defs)
  have c': "py_float (clean_amount (strip ''N/A'')) = Inl ValueError"
    by (simp add: clean_amount_def text_defs float_defs)
  have 1: "parse_amount ''-'' = Inr (Finite True 0)"
    using C2_parse_amount [of "''-''"] a by simp
  have 2: "parse_amount ''-$1,234.50'' = Inr (Finite True (2469 / 2))"
    using C2_parse_amount [of "''-$1,234.50''" "Finite False (2469 / 2)"] b b'
    by (simp add: fneg_def)
  have 3: "parse_amount ''N/A'' = Inl ValueError
           \<and> process_item (Some ''Jack'') (sample_item ''N/A'') = Raised ValueError"
    using C2_parse_amount [of "''N/A''" _ ValueError "Some ''Jack''" "''09:15''" "''Rhodes''"
                              "''Meadowbank''" None "Icon (Some ''bus'')" sample_clock] c c'
    by (simp add: sample_item_def)
  from a b b' c c' 1 2 3 show ?thesis by blast
qed

text \<open>
  Against claim C2 as it is written: the amount text "N/A" is not numeric, and the parse does
  not fall back to 0.0. float() raises ValueError, and extraction returns no record for the
  row, with a warning in the log.
\<close>

theorem C2_counterexample:
  "parse_amount ''N/A'' = Inl ValueError
   \<and> parse_amount ''N/A'' \<noteq> Inr (Finite False 0)
   \<and> extract_trip_items (Items [sample_item ''N/A'']) (Some ''Jack'')
       = ([], [FoundTrips 1 (Some ''Jack''), SkippedTripItem ValueError])"
proof -
  have p: "parse_amount ''N/A'' = Inl ValueError"
    by (simp add: parse_amount_def clean_amount_def text_defs float_defs)
  have "process_item (Some ''Jack'') (sample_item ''N/A'') = Raised ValueError"
    by (simp add: process_item_def sample_item_def p)
  then have "extract_trip_items (Items [sample_item ''N/A'']) (Some ''Jack'')
       = ([], [FoundTrips 1 (Some ''Jack''), SkippedTripItem ValueError])"
    by (simp add: extract_trip_items_def)
  with p show ?thesis by simp
qed

section \<open>Trip-type classification\<close>

text \<open>
  Claim C3, as the code has it. The icon name is lowered and tested for the substrings train,
  metro, bus and ferry, in this order, and then for light or rail, either of which gives
  Light Rail; the first test that succeeds decides, and Unknown is left when none does or
  when there is no icon. So "train-icon" gives Train and "unknown-icon" gives Unknown, and
  names that differ only in case are classified alike.
\<close>

theorem C3_trip_type:
  "trip_type_of NoIcon = ''Unknown''
   \<and> trip_type_of (Icon (Some ''train-icon'')) = ''Train''
   \<and> trip_type_of (Icon (Some ''unknown-icon'')) = ''Unknown''
   \<and> (lower a = lower b \<longrightarrow> trip_type_of (Icon (Some a)) = trip_type_of (Icon (Some b)))
   \<and> trip_type_of (Icon (Some a)) =
       (if occurs ''train'' (lower a) then ''Train''
        else if occurs ''metro'' (lower a) then ''Metro''
        else if occurs ''bus'' (lower a) then ''Bus''
        else if occurs ''ferry'' (lower a) then ''Ferry''
        else if occurs ''light'' (lower a) \<or> occurs ''rail'' (lower a) then ''Light Rail''
        else ''Unknown'')"
proof -
  have 1: "trip_type_of NoIcon = ''Unknown''"
    by (simp add: trip_type_of_def)
  have 2: "trip_type_of (Icon (Some ''train-icon'')) = ''Train''"
    by (simp add: trip_type_of_def classify_name_def text_defs)
  have 3: "trip_type_of (Icon (Some ''unknown-icon'')) = ''Unknown''"
    by (simp add: trip_type_of_def classify_name_def text_defs)
  have 4: "lower a = lower b \<longrightarrow> trip_type_of (Icon (Some a)) = trip_type_of (Icon (Some b))"
    by (simp add: trip_type_of_def)
  have 5: "trip_type_of (Icon (Some a)) =
       (if occurs ''train'' (lower a) then ''Train''
        else if occurs ''metro'' (lower a) then ''Metro''
        else if occurs ''bus'' (lower a) then ''Bus''
        else if occurs ''ferry'' (lower a) then ''Ferry''
        else if occurs ''light'' (lower a) \<or> occurs ''rail'' (lower a) then ''Light Rail''
        else ''Unknown'')"
    unfolding py_in_occurs [symmetric] by (simp add: trip_type_of_def classify_name_def)
  from 1 2 3 4 5 show ?thesis by blast
qed

theorem C3_trip_type_witness:
  "lower ''TRAIN-Icon'' = lower ''train-icon''
   \<and> trip_type_of (Icon (Some ''TRAIN-Icon'')) = ''Train''"
proof -
  have h: "lower ''TRAIN-Icon'' = lower ''train-icon''"
    by (simp add: text_defs)
  from C3_trip_type [of "''TRAIN-Icon''" "''train-icon''"] h show ?thesis by simp
qed

text \<open>
  Against claim C3 as it is written: the fifth test is not for the substring light-rail.
  The icon name "lightrail" holds none of train, metro, bus, ferry and light-rail, and the
  code classifies it as Light Rail.
\<close>

theorem C3_counterexample:
  "trip_type_of (Icon (Some ''lightrail'')) = ''Light Rail''
   \<and> classify_spec (lower ''lightrail'') = ''Unknown''"
  by (simp add: trip_type_of_def classify_name_def classify_spec_def text_defs)

section \<open>Time conversion: properties\<close>



lemma parse_0915: "parse_hhmm ''09:15'' = Inr (9, 15)"
  by (simp add: parse_hhmm_def py_int_def text_defs)



lemma times_0915:
  "to_utc_and_local_times sample_clock ''09:15''
     = (\<lparr>ordinal = 739561, hour = 9, minute = 15, second = 0, microsecond = 0, utcoffset = 660\<rparr>,
        \<lparr>ordinal = 739560, hour = 22, minute = 15, second = 0, microsecond = 0, utcoffset = 0\<rparr>)"
  by (simp add: to_utc_and_local_times_def parse_0915 astimezone_def sample_clock_def)

lemma iso_local:
  "isoformat \<lparr>ordinal = 739561, hour = 9, minute = 15, second = 0, microsecond = 0, utcoffset = 660\<rparr>
     = ''2025-11-06T09:15:00+11:00''"
  by code_simp

lemma iso_utc:
  "isoformat \<lparr>ordinal = 739560, hour = 22, minute = 15, second = 0, microsecond = 0, utcoffset = 0\<rparr>
     = ''2025-11-05T22:15:00+00:00''"
  by code_simp




section \<open>Extraction: properties\<close>


lemma item_loop_trips:
  "fst (item_loop card_name items (trips, lg)) = trips @ concat (map (appended card_name) items)"
  by (induction items arbitrary: trips lg) (auto simp: appended_def split: item_result.splits)

lemma extract_trips:
  "fst (extract_trip_items pg card_name)
     = (case pg of SelectorTimeout \<Rightarrow> [] | Items items \<Rightarrow> concat (map (appended card_name) items))"
  by (simp add: extract_trip_items_def item_loop_trips split: activity.splits)

lemma process_item_invariant: "process_item card_name it = Appended t \<Longrightarrow> trip_invariant t"
  by (auto simp: process_item_def trip_invariant_def field_def Let_def
           split: option.splits sum.splits prod.splits)

lemma appended_invariant: "t \<in> set (appended card_name it) \<Longrightarrow> trip_invariant t"
  by (auto simp: appended_def process_item_invariant split: item_result.splits)

text \<open>
  Claim C10. Every record that extract_trip_items returns has the currency AUD and the
  description "from (arrow) to (type)" made of its own tap-on location, tap-off location
  and trip type.
\<close>

theorem C10_trip_record_invariant:
  "\<forall>t \<in> set (fst (extract_trip_items pg card_name)). trip_invariant t"
  by (auto simp: extract_trips appended_invariant split: activity.splits)

lemma length_appended: "length (appended card_name it) = (if row_parses it then 1 else 0)"
  by (auto simp: appended_def process_item_def row_parses_def amount_text_of_def Let_def
           split: option.splits sum.splits prod.splits)

lemma length_concat_appended:
  "length (concat (map (appended card_name) items)) = length (filter row_parses items)"
  by (induction items) (simp_all add: length_appended)

lemma length_extract:
  "length (fst (extract_trip_items pg card_name))
     = (case pg of SelectorTimeout \<Rightarrow> 0 | Items items \<Rightarrow> length (filter row_parses items))"
  by (simp add: extract_trips length_concat_appended split: activity.splits)

lemma missing_continue: "missing_field it \<Longrightarrow> process_item card_name it = Continue"
  by (auto simp: missing_field_def amount_text_of_def process_item_def split: option.splits)

lemma length_process_card:
  "length (all_transactions (process_card idx n c st))
     = length (all_transactions st) + (if click_ok c then parsed_rows c else 0)"
proof (cases "click_ok c")
  case False
  then show ?thesis by (simp add: process_card_def)
next
  case True
  obtain trips lg where
    e: "extract_trip_items (trips_page c) (Some (resolve_card_name idx c (prev_name st))) = (trips, lg)"
    by (cases "extract_trip_items (trips_page c) (Some (resolve_card_name idx c (prev_name st)))")
  have "length trips = parsed_rows c"
    using length_extract [of "trips_page c" "Some (resolve_card_name idx c (prev_name st))"] e
    by (simp add: parsed_rows_def)
  with True e show ?thesis by (simp add: process_card_def Let_def)
qed

lemma length_card_loop:
  "length (all_transactions (card_loop idx n cs st))
     = length (all_transactions st) + sum_list (map parsed_rows (filter click_ok cs))"
  by (induction cs arbitrary: idx st) (simp_all add: length_process_card)

lemma length_single_card:
  "length (all_transactions (single_card c st)) = length (all_transactions st) + parsed_rows c"
proof -
  obtain trips lg where e: "extract_trip_items (trips_page c) (name_final c) = (trips, lg)"
    by (cases "extract_trip_items (trips_page c) (name_final c)")
  have "length trips = parsed_rows c"
    using length_extract [of "trips_page c" "name_final c"] e by (simp add: parsed_rows_def)
  with e show ?thesis by (simp add: single_card_def Let_def)
qed

lemma length_collect:
  "length (all_transactions (collect pg st))
     = length (all_transactions st) + sum_list (map parsed_rows (visited_cards pg))"
  by (auto simp: collect_def Let_def visited_cards_def length_card_loop length_single_card
           split: option.splits)

lemma scrape_files:
  "login_form pg \<Longrightarrow> logged_in pg \<Longrightarrow>
   files (scrape_opal u p pg fs)
     = (fs(''transactions.json'' \<mapsto> JArr (all_transactions (collect pg (logged_in_state u p)))))
         (''balance.json'' \<mapsto> balance_json (balance_list (collect pg (logged_in_state u p)))
                                  (isoformat_naive (final_clock pg)))"
  by (simp add: scrape_opal_def Let_def)


lemma missing_not_parses: "missing_field it \<Longrightarrow> \<not> row_parses it"
  by (auto simp: missing_field_def row_parses_def)

lemma appended_missing: "missing_field it \<Longrightarrow> appended card_name it = []"
  by (simp add: appended_def missing_continue)

text \<open>
  Claim C5. When the login succeeds, the sequence written to transactions.json has as many
  records as there are rows that parse, summed over the cards visited. A row without one
  of time, from, to and amount does not parse, is passed over by the loop, and the trips
  returned are those of the list without it.
\<close>

theorem C5_transaction_count:
  "(login_form pg \<and> logged_in pg \<longrightarrow>
      map_option length (written_transactions (scrape_opal u p pg fs))
        = Some (sum_list (map parsed_rows (visited_cards pg))))
   \<and> (missing_field it \<longrightarrow>
        \<not> row_parses it
        \<and> process_item card_name it = Continue
        \<and> fst (extract_trip_items (Items (xs @ it # ys)) card_name)
            = fst (extract_trip_items (Items (xs @ ys)) card_name))"
proof -
  have 1: "map_option length (written_transactions (scrape_opal u p pg fs))
        = Some (sum_list (map parsed_rows (visited_cards pg)))"
    if "login_form pg" "logged_in pg"
    using that
    by (simp add: written_transactions_def scrape_files length_collect logged_in_state_def)
  have 2: "\<not> row_parses it \<and> process_item card_name it = Continue
        \<and> fst (extract_trip_items (Items (xs @ it # ys)) card_name)
            = fst (extract_trip_items (Items (xs @ ys)) card_name)"
    if "missing_field it"
    using that by (simp add: missing_not_parses missing_continue extract_trips appended_missing)
  from 1 2 show ?thesis by blast
qed

section \<open>A sample run\<close>

lemma tul_0915:
  "to_utc_and_local sample_clock ''09:15''
     = (''2025-11-06T09:15:00+11:00'', ''2025-11-05T22:15:00+00:00'')"
  by (simp add: to_utc_and_local_def times_0915 iso_local iso_utc)

lemma amount_320: "parse_amount ''-$3.20'' = Inr (Finite True (320 / 100))"
  by (simp add: parse_amount_def clean_amount_def text_defs float_defs)

lemma amount_na: "parse_amount ''N/A'' = Inl ValueError"
  by (simp add: parse_amount_def clean_amount_def text_defs float_defs)

lemma strip_samples:
  "strip ''09:15'' = ''09:15''" "strip ''Rhodes'' = ''Rhodes''" "strip ''Meadowbank'' = ''Meadowbank''"
  by (simp_all add: text_defs)

lemma process_sample:
  "process_item (Some ''Jack'') (sample_item ''-$3.20'') = Appended sample_trip"
  by (simp add: process_item_def sample_item_def amount_320 strip_samples tul_0915
        trip_type_of_def classify_name_def lower_def lower_char_def startswith_def
        sample_trip_def json_of_name_def)

lemma process_no_time:
  "process_item (Some ''Jack'') ((sample_item ''-$22.26'')\<lparr>date_el := None\<rparr>) = Continue"
  by (simp add: process_item_def sample_item_def)

lemma process_na:
  "process_item (Some ''Jack'') (sample_item ''N/A'') = Raised ValueError"
  by (simp add: process_item_def sample_item_def amount_na)

lemma extract_jack:
  "extract_trip_items (trips_page card_jack) (Some ''Jack'')
     = ([sample_trip], [FoundTrips 3 (Some ''Jack''), SkippedTripItem ValueError])"
  by (simp add: extract_trip_items_def card_jack_def process_sample process_no_time process_na)

theorem C10_trip_record_invariant_witness:
  "sample_trip \<in> set (fst (extract_trip_items (trips_page card_jack) (Some ''Jack'')))
   \<and> trip_invariant sample_trip"
  using C10_trip_record_invariant [of "trips_page card_jack" "Some ''Jack''"]
  by (simp add: extract_jack)

lemma rows_jack: "parsed_rows card_jack = 1"
  by (simp add: parsed_rows_def card_jack_def row_parses_def amount_text_of_def sample_item_def
        amount_320 amount_na)

lemma rows_same: "parsed_rows card_same = 0"
  by (simp add: parsed_rows_def card_same_def)

theorem C5_transaction_count_witness:
  "login_form (sample_page [card_jack, card_same])
   \<and> logged_in (sample_page [card_jack, card_same])
   \<and> sum_list (map parsed_rows (visited_cards (sample_page [card_jack, card_same]))) = 1
   \<and> map_option length
        (written_transactions (scrape_opal ''user'' ''secret'' (sample_page [card_jack, card_same]) Map.empty))
       = Some 1
   \<and> missing_field ((sample_item ''-$22.26'')\<lparr>date_el := None\<rparr>)
   \<and> process_item (Some ''Jack'') ((sample_item ''-$22.26'')\<lparr>date_el := None\<rparr>) = Continue
   \<and> fst (extract_trip_items
            (Items ([sample_item ''-$3.20''] @ (sample_item ''-$22.26'')\<lparr>date_el := None\<rparr> # [])) (Some ''Jack''))
       = fst (extract_trip_items (Items ([sample_item ''-$3.20''] @ [])) (Some ''Jack''))"
proof -
  have l: "login_form (sample_page [card_jack, card_same])
           \<and> logged_in (sample_page [card_jack, card_same])"
    by (simp add: sample_page_def)
  have v: "visited_cards (sample_page [card_jack, card_same]) = [card_jack, card_same]"
    by (simp add: visited_cards_def sample_page_def card_jack_def card_same_def)
  have s: "sum_list (map parsed_rows (visited_cards (sample_page [card_jack, card_same]))) = 1"
    by (simp add: v rows_jack rows_same)
  have m: "missing_field ((sample_item ''-$22.26'')\<lparr>date_el := None\<rparr>)"
    by (simp add: missing_field_def)
  from C5_transaction_count [of "sample_page [card_jack, card_same]" "''user''" "''secret''" Map.empty
         "(sample_item ''-$22.26'')\<lparr>date_el := None\<rparr>" "Some ''Jack''" "[sample_item ''-$3.20'']" "[]"]
       l s m
  show ?thesis by simp
qed

section \<open>The card loop: properties\<close>

lemma prev_name_process_card:
  "click_ok c \<Longrightarrow> prev_name (process_card idx n c st) = resolve_card_name idx c (prev_name st)"
  by (simp add: process_card_def Let_def split: prod.splits)

lemma balance_list_process_card:
  "balance_list (process_card idx n c st)
     = balance_list st
       @ (if click_ok c
          then (case parse_balance (card_balance_text c) of
                  None \<Rightarrow> []
                | Some b \<Rightarrow> [balance_entry (Some (resolve_card_name idx c (prev_name st))) b])
          else [])"
  by (simp add: process_card_def Let_def split: prod.splits)

lemma length_balance_process_card:
  "length (balance_list (process_card idx n c st))
     = length (balance_list st) + (if click_ok c \<and> has_balance c then 1 else 0)"
  by (auto simp: balance_list_process_card has_balance_def split: option.splits)

lemma length_balance_card_loop:
  "length (balance_list (card_loop idx n cs st))
     = length (balance_list st) + length (filter (\<lambda>c. click_ok c \<and> has_balance c) cs)"
  by (induction cs arbitrary: idx st) (simp_all add: length_balance_process_card)

lemma balance_list_single_card:
  "balance_list (single_card c st)
     = balance_list st
       @ (case parse_balance (value_text c) of
            None \<Rightarrow> []
          | Some b \<Rightarrow> [balance_entry (name_final c) b])"
  by (simp add: single_card_def Let_def split: prod.splits)

lemma length_balance_collect:
  "length (balance_list (collect pg st)) = length (balance_list st) + n_balances pg"
  by (auto simp: collect_def Let_def n_balances_def length_balance_card_loop
        balance_list_single_card split: option.splits)

lemma captured_count:
  "length (balance_list (collect pg (logged_in_state u p))) = n_balances pg"
  by (simp add: length_balance_collect logged_in_state_def)

lemma card_loop_append:
  "card_loop idx n (xs @ ys) st = card_loop (idx + length xs) n ys (card_loop idx n xs st)"
  by (induction xs arbitrary: idx st) simp_all

lemma wait_unchanged:
  "\<forall>v \<in> set polls. \<not> truthy v \<or> v = Some prev \<Longrightarrow> wait_for_value_change polls final prev = final"
  by (induction polls) auto

lemma thumb_jack: "thumb_info card_jack = (Some ''Jack'', Some ''$9.70'')"
  by (simp add: thumb_info_def card_jack_def parse_card_info_from_text_def is_amount_def text_defs)

lemma thumb_same: "thumb_info card_same = (None, None)"
  by (simp add: thumb_info_def card_same_def)

lemma thumb_blank: "thumb_info card_blank = (None, None)"
  by (simp add: thumb_info_def card_blank_def)

lemma resolve_jack: "resolve_card_name idx card_jack prev = ''Jack''"
  by (simp add: resolve_card_name_def thumb_jack)

lemma str_2: "str_nat 2 = ''2''"
  by (simp add: str_nat.simps)

lemma bal_970: "parse_balance (Some ''$9.70'') = Some (Finite False (970 / 100))"
  by (simp add: parse_balance_def text_defs float_defs)

lemma bal_2050: "parse_balance (Some ''$20.50'') = Some (Finite False (2050 / 100))"
  by (simp add: parse_balance_def text_defs float_defs)

lemma balance_text_jack: "card_balance_text card_jack = Some ''$9.70''"
  by (simp add: card_balance_text_def thumb_jack truthy_def)

lemma balance_text_same: "card_balance_text card_same = Some ''$20.50''"
  by (simp add: card_balance_text_def thumb_same truthy_def) (simp add: card_same_def)

lemma balance_text_blank: "card_balance_text card_blank = None"
  by (simp add: card_balance_text_def thumb_blank truthy_def) (simp add: card_blank_def)

lemma click_samples: "click_ok card_jack" "click_ok card_same" "click_ok card_blank"
  by (simp_all add: card_jack_def card_same_def card_blank_def)

lemma state_jack:
  "prev_name (process_card idx n card_jack st) = ''Jack''"
  "balance_list (process_card idx n card_jack st)
     = balance_list st @ [\<lparr>card_id = Some ''Jack'', balance = Finite False (970 / 100), currency = ''AUD''\<rparr>]"
  by (simp_all add: prev_name_process_card balance_list_process_card click_samples resolve_jack
        balance_text_jack bal_970 balance_entry_def)

lemma resolve_same: "resolve_card_name idx card_same ''Jack'' = ''Jack''"
  by (simp add: resolve_card_name_def thumb_same) (simp add: card_same_def truthy_def)

lemma balances_jack_same:
  "balance_list (collect (sample_page [card_jack, card_same]) (logged_in_state u p))
     = [\<lparr>card_id = Some ''Jack'', balance = Finite False (970 / 100), currency = ''AUD''\<rparr>,
        \<lparr>card_id = Some ''Jack'', balance = Finite False (2050 / 100), currency = ''AUD''\<rparr>]"
  by (simp add: collect_def sample_page_def balance_list_process_card [of _ _ card_same] state_jack
        click_samples resolve_same balance_text_same bal_2050 balance_entry_def)
     (simp add: logged_in_state_def)

section \<open>Card names\<close>

text \<open>
  Claim C1, as the code has it. In the loop over the thumbs, when the sibling text gives no
  card name, the card gets the name Card_idx if the page shows no name for it: no reading
  within the bounded wait is a non-empty text other than the previous card's name, and the
  reading taken after the wait is absent or empty. When the page keeps showing the
  previous card's name, during the wait and after it, the card gets that name. The name
  becomes prev_name, and idx is the position of the card in the list, counted from 1.
\<close>

theorem C1_card_name:
  "(fst (thumb_info c) = None \<and> \<not> truthy (name_final c)
      \<and> (\<forall>v \<in> set (name_polls c). \<not> truthy v \<or> v = Some prev) \<longrightarrow>
        resolve_card_name idx c prev = ''Card_'' @ str_nat idx)
   \<and> (fst (thumb_info c) = None \<and> prev \<noteq> [] \<and> name_final c = Some prev
      \<and> (\<forall>v \<in> set (name_polls c). v = Some prev) \<longrightarrow>
        resolve_card_name idx c prev = prev)
   \<and> (click_ok c \<longrightarrow> prev_name (process_card idx n c st) = resolve_card_name idx c (prev_name st))
   \<and> card_loop 1 n (xs @ c # ys) st
       = card_loop (length xs + 2) n ys (process_card (length xs + 1) n c (card_loop 1 n xs st))"
proof -
  have 1: "resolve_card_name idx c prev = ''Card_'' @ str_nat idx"
    if t: "fst (thumb_info c) = None" and f: "\<not> truthy (name_final c)"
      and q: "\<forall>v \<in> set (name_polls c). \<not> truthy v \<or> v = Some prev"
  proof -
    have w: "wait_for_value_change (name_polls c) (name_final c) prev = name_final c"
      using q by (rule wait_unchanged)
    have d: "(if prev \<noteq> [] then wait_for_value_change (name_polls c) (name_final c) prev
              else name_final c) = name_final c"
      using w by simp
    from f show ?thesis
      unfolding resolve_card_name_def d t
      by (cases "name_final c") (simp_all add: truthy_def)
  qed
  have 2: "resolve_card_name idx c prev = prev"
    if t: "fst (thumb_info c) = None" and ne: "prev \<noteq> []" and f: "name_final c = Some prev"
      and q: "\<forall>v \<in> set (name_polls c). v = Some prev"
  proof -
    have w: "wait_for_value_change (name_polls c) (name_final c) prev = name_final c"
      using q by (intro wait_unchanged) simp
    have d: "(if prev \<noteq> [] then wait_for_value_change (name_polls c) (name_final c) prev
              else name_final c) = Some prev"
      using w f by simp
    show ?thesis
      unfolding resolve_card_name_def d t using ne by simp
  qed
  have 3: "prev_name (process_card idx n c st) = resolve_card_name idx c (prev_name st)"
    if "click_ok c"
    using that by (rule prev_name_process_card)
  have 4: "card_loop 1 n (xs @ c # ys) st
       = card_loop (length xs + 2) n ys (process_card (length xs + 1) n c (card_loop 1 n xs st))"
    by (simp add: card_loop_append)
  from 1 2 3 4 show ?thesis by blast
qed

theorem C1_card_name_witness:
  "fst (thumb_info card_blank) = None \<and> name_final card_blank = None
   \<and> name_polls card_blank = [None, Some []]
   \<and> resolve_card_name 2 card_blank ''Jack'' = ''Card_2''
   \<and> fst (thumb_info card_same) = None \<and> name_final card_same = Some ''Jack''
   \<and> name_polls card_same = [Some ''Jack'', Some ''Jack'']
   \<and> resolve_card_name 2 card_same ''Jack'' = ''Jack''
   \<and> click_ok card_blank
   \<and> prev_name (card_loop 1 2 ([card_jack] @ card_blank # []) (logged_in_state ''user'' ''secret''))
       = ''Card_2''"
proof -
  let ?st = "logged_in_state ''user'' ''secret''"
  have b: "fst (thumb_info card_blank) = None \<and> name_final card_blank = None
           \<and> name_polls card_blank = [None, Some []] \<and> click_ok card_blank"
    by (simp add: thumb_blank) (simp add: card_blank_def)
  have s: "fst (thumb_info card_same) = None \<and> name_final card_same = Some ''Jack''
           \<and> name_polls card_same = [Some ''Jack'', Some ''Jack'']"
    by (simp add: thumb_same) (simp add: card_same_def)
  have j: "prev_name (card_loop 1 2 [card_jack] ?st) = ''Jack''"
    by (simp add: prev_name_process_card card_jack_def [THEN arg_cong, of click_ok]
          resolve_jack logged_in_state_def)
  have 1: "resolve_card_name 2 card_blank ''Jack'' = ''Card_2''"
    using C1_card_name [of card_blank "''Jack''" 2] b by (simp add: truthy_def str_2)
  have 2: "resolve_card_name 2 card_same ''Jack'' = ''Jack''"
    using C1_card_name [of card_same "''Jack''" 2] s by simp
  have p: "prev_name (process_card 2 2 card_blank (card_loop 1 2 [card_jack] ?st))
             = resolve_card_name 2 card_blank (prev_name (card_loop 1 2 [card_jack] ?st))"
    using C1_card_name [of card_blank _ 2 2 "card_loop 1 2 [card_jack] ?st"] b by blast
  have l: "card_loop 1 2 ([card_jack] @ card_blank # []) ?st
             = card_loop (length [card_jack] + 2) 2 []
                 (process_card (length [card_jack] + 1) 2 card_blank (card_loop 1 2 [card_jack] ?st))"
    using C1_card_name [of card_blank _ _ 2 ?st "[card_jack]" "[]"] by blast
  have n: "length [card_jack] + 1 = (2::nat)"
    by simp
  have 3: "prev_name (card_loop 1 2 ([card_jack] @ card_blank # []) ?st) = ''Card_2''"
    unfolding l n card_loop.simps(1) p j by (rule 1)
  from b s 1 2 3 show ?thesis by simp
qed

text \<open>
  Against claim C1 as it is written: for the second of two cards there is no sibling text,
  and the page shows the first card's name Jack at every reading. The card is not named
  Card_2: wait_for_value_change returns the text still shown, and both captured balances
  carry the card id Jack.
\<close>

theorem C1_counterexample:
  "fst (thumb_info card_same) = None
   \<and> name_polls card_same = [Some ''Jack'', Some ''Jack'']
   \<and> name_final card_same = Some ''Jack''
   \<and> prev_name (card_loop 1 2 [card_jack] (logged_in_state ''user'' ''secret'')) = ''Jack''
   \<and> resolve_card_name 2 card_same ''Jack'' = ''Jack''
   \<and> resolve_card_name 2 card_same ''Jack'' \<noteq> ''Card_2''
   \<and> map card_id (balance_list (collect (sample_page [card_jack, card_same])
                                    (logged_in_state ''user'' ''secret'')))
       = [Some ''Jack'', Some ''Jack'']"
proof -
  have s: "fst (thumb_info card_same) = None \<and> name_final card_same = Some ''Jack''
           \<and> name_polls card_same = [Some ''Jack'', Some ''Jack'']"
    by (simp add: thumb_same) (simp add: card_same_def)
  have j: "prev_name (card_loop 1 2 [card_jack] (logged_in_state ''user'' ''secret'')) = ''Jack''"
    by (simp add: state_jack)
  have r: "resolve_card_name 2 card_same ''Jack'' = ''Jack''"
    by (rule resolve_same)
  from s j r show ?thesis by (simp add: balances_jack_same)
qed

section \<open>The files written\<close>

lemma balance_file:
  "login_form pg \<Longrightarrow> logged_in pg \<Longrightarrow>
   files (scrape_opal u p pg fs) ''balance.json''
     = Some (balance_json (balance_list (collect pg (logged_in_state u p)))
               (isoformat_naive (final_clock pg)))"
  by (simp add: scrape_files)

lemma length_1_iff: "length xs = Suc 0 \<longleftrightarrow> (\<exists>x. xs = [x])"
  by (cases xs) auto

lemma iso_final: "isoformat_naive (final_clock (sample_page cs)) = ''2025-11-05T14:30:00''"
  unfolding sample_page_def by code_simp

lemma has_balance_samples:
  "has_balance card_jack" "has_balance card_same" "\<not> has_balance card_blank"
proof -
  show "has_balance card_jack"
    by (simp add: has_balance_def balance_text_jack bal_970)
  show "has_balance card_same"
    by (simp add: has_balance_def balance_text_same bal_2050)
  show "\<not> has_balance card_blank"
    by (simp add: has_balance_def balance_text_blank parse_balance_def)
qed

lemma n_balances_two: "n_balances (sample_page [card_jack, card_same]) = 2"
  by (simp add: n_balances_def sample_page_def click_samples has_balance_samples)

lemma n_balances_one: "n_balances (sample_page [card_jack, card_blank]) = 1"
  by (simp add: n_balances_def sample_page_def click_samples has_balance_samples)

lemma n_balances_none: "n_balances (sample_page []) = 0"
  by (simp add: n_balances_def sample_page_def card_blank_def parse_balance_def)

lemma login_sample: "login_form (sample_page cs)" "logged_in (sample_page cs)"
  by (simp_all add: sample_page_def)

lemma balances_jack_blank:
  "balance_list (collect (sample_page [card_jack, card_blank]) (logged_in_state u p))
     = [\<lparr>card_id = Some ''Jack'', balance = Finite False (970 / 100), currency = ''AUD''\<rparr>]"
  by (simp add: collect_def sample_page_def balance_list_process_card [of _ _ card_blank] state_jack
        click_samples balance_text_blank parse_balance_def)
     (simp add: logged_in_state_def)

text \<open>
  Claim C4. After a successful login balance.json is written, and the number of balances
  captured is the number of visited cards whose balance text is read as a number. When it
  is one, the file is a flat object with the keys balance, currency, card_id and
  last_updated, holding the card id and the balance of that one capture, and it has no
  cards sequence. When it is two or more, the file is an object with the keys cards and
  last_updated, and its cards sequence has one entry for each captured balance.
\<close>

theorem C4_balance_shape:
  "login_form pg \<and> logged_in pg \<longrightarrow>
     (\<exists>j. files (scrape_opal u p pg fs) ''balance.json'' = Some j
        \<and> length (balance_list (collect pg (logged_in_state u p))) = n_balances pg
        \<and> (n_balances pg = 1 \<longrightarrow>
             keys j = [''balance'', ''currency'', ''card_id'', ''last_updated'']
             \<and> cards_of j = None
             \<and> (\<exists>b. balance_list (collect pg (logged_in_state u p)) = [b]
                    \<and> field ''card_id'' j = Some (json_of_name (card_id b))
                    \<and> field ''balance'' j = Some (JNum (balance b))))
        \<and> (2 \<le> n_balances pg \<longrightarrow>
             keys j = [''cards'', ''last_updated'']
             \<and> cards_of j = Some (map json_of_balance (balance_list (collect pg (logged_in_state u p))))
             \<and> map_option length (cards_of j) = Some (n_balances pg)))"
proof
  assume l: "login_form pg \<and> logged_in pg"
  let ?bl = "balance_list (collect pg (logged_in_state u p))"
  let ?j = "balance_json ?bl (isoformat_naive (final_clock pg))"
  have f: "files (scrape_opal u p pg fs) ''balance.json'' = Some ?j"
    using l by (simp add: balance_file)
  have n: "length ?bl = n_balances pg"
    by (rule captured_count)
  have one: "keys ?j = [''balance'', ''currency'', ''card_id'', ''last_updated'']
             \<and> cards_of ?j = None
             \<and> (\<exists>b. ?bl = [b]
                    \<and> field ''card_id'' ?j = Some (json_of_name (card_id b))
                    \<and> field ''balance'' ?j = Some (JNum (balance b)))"
    if "n_balances pg = 1"
  proof -
    from that n obtain b where b: "?bl = [b]"
      by (auto simp: length_1_iff)
    show ?thesis
      unfolding b by (simp add: balance_json_def keys_def cards_of_def field_def)
  qed
  have many: "keys ?j = [''cards'', ''last_updated'']
             \<and> cards_of ?j = Some (map json_of_balance ?bl)
             \<and> map_option length (cards_of ?j) = Some (n_balances pg)"
    if "2 \<le> n_balances pg"
  proof -
    from that n have "\<not> length ?bl \<le> 1" by simp
    then show ?thesis
      using n by (simp add: balance_json_def keys_def cards_of_def field_def)
  qed
  from f n one many
  show "\<exists>j. files (scrape_opal u p pg fs) ''balance.json'' = Some j
        \<and> length ?bl = n_balances pg
        \<and> (n_balances pg = 1 \<longrightarrow>
             keys j = [''balance'', ''currency'', ''card_id'', ''last_updated'']
             \<and> cards_of j = None
             \<and> (\<exists>b. ?bl = [b]
                    \<and> field ''card_id'' j = Some (json_of_name (card_id b))
                    \<and> field ''balance'' j = Some (JNum (balance b))))
        \<and> (2 \<le> n_balances pg \<longrightarrow>
             keys j = [''cards'', ''last_updated'']
             \<and> cards_of j = Some (map json_of_balance ?bl)
             \<and> map_option length (cards_of j) = Some (n_balances pg))"
    by blast
qed

theorem C4_balance_shape_witness:
  "login_form (sample_page [card_jack, card_blank]) \<and> logged_in (sample_page [card_jack, card_blank])
   \<and> n_balances (sample_page [card_jack, card_blank]) = 1
   \<and> map_option keys
        (files (scrape_opal ''user'' ''secret'' (sample_page [card_jack, card_blank]) Map.empty)
           ''balance.json'')
       = Some [''balance'', ''currency'', ''card_id'', ''last_updated'']
   \<and> Option.bind
        (files (scrape_opal ''user'' ''secret'' (sample_page [card_jack, card_blank]) Map.empty)
           ''balance.json'') (field ''card_id'')
       = Some (JStr ''Jack'')
   \<and> login_form (sample_page [card_jack, card_same]) \<and> logged_in (sample_page [card_jack, card_same])
   \<and> n_balances (sample_page [card_jack, card_same]) = 2
   \<and> Option.bind (files (scrape_opal ''user'' ''secret'' (sample_page [card_jack, card_same]) Map.empty)
                      ''balance.json'') cards_of
       = Some [JObj [(''card_id'', JStr ''Jack''), (''balance'', JNum (Finite False (970 / 100))),
                     (''currency'', JStr ''AUD'')],
               JObj [(''card_id'', JStr ''Jack''), (''balance'', JNum (Finite False (2050 / 100))),
                     (''currency'', JStr ''AUD'')]]"
proof -
  let ?p1 = "sample_page [card_jack, card_blank]"
  let ?p2 = "sample_page [card_jack, card_same]"
  let ?r1 = "scrape_opal ''user'' ''secret'' ?p1 Map.empty"
  let ?r2 = "scrape_opal ''user'' ''secret'' ?p2 Map.empty"
  from C4_balance_shape [of ?p1 "''user''" "''secret''" Map.empty] login_sample n_balances_one
  obtain j b where j: "files ?r1 ''balance.json'' = Some j"
    and k: "keys j = [''balance'', ''currency'', ''card_id'', ''last_updated'']"
    and b: "balance_list (collect ?p1 (logged_in_state ''user'' ''secret'')) = [b]"
    and c: "field ''card_id'' j = Some (json_of_name (card_id b))"
    and v: "field ''balance'' j = Some (JNum (balance b))"
    by auto
  have e: "map_option keys (files ?r1 ''balance.json'')
             = Some [''balance'', ''currency'', ''card_id'', ''last_updated'']
           \<and> Option.bind (files ?r1 ''balance.json'') (field ''card_id'') = Some (JStr ''Jack'')"
  proof -
    from b have "card_id b = Some ''Jack''"
      by (auto simp: balances_jack_blank)
    with j k c show ?thesis
      by (simp add: json_of_name_def)
  qed
  from C4_balance_shape [of ?p2 "''user''" "''secret''" Map.empty] login_sample n_balances_two
  obtain j2 where j2: "files ?r2 ''balance.json'' = Some j2"
    and c2: "cards_of j2 = Some (map json_of_balance
               (balance_list (collect ?p2 (logged_in_state ''user'' ''secret''))))"
    by auto
  have e2: "Option.bind (files ?r2 ''balance.json'') cards_of
       = Some [JObj [(''card_id'', JStr ''Jack''), (''balance'', JNum (Finite False (970 / 100))),
                     (''currency'', JStr ''AUD'')],
               JObj [(''card_id'', JStr ''Jack''), (''balance'', JNum (Finite False (2050 / 100))),
                     (''currency'', JStr ''AUD'')]]"
    unfolding j2 by (simp add: c2 balances_jack_same json_of_balance_def json_of_name_def)
  from e e2 login_sample n_balances_one n_balances_two show ?thesis by simp
qed

text \<open>
  Claim C9. After a successful login in which no balance is captured, balance.json is
  still written: a flat object whose balance and card_id are null, with the currency AUD
  and the ISO text of the local clock as last_updated.
\<close>

theorem C9_no_balance:
  "login_form pg \<and> logged_in pg \<and> n_balances pg = 0 \<longrightarrow>
     files (scrape_opal u p pg fs) ''balance.json''
       = Some (JObj [(''balance'', JNull), (''currency'', JStr ''AUD''), (''card_id'', JNull),
                     (''last_updated'', JStr (isoformat_naive (final_clock pg)))])"
proof
  assume a: "login_form pg \<and> logged_in pg \<and> n_balances pg = 0"
  have "length (balance_list (collect pg (logged_in_state u p))) = 0"
    using a by (simp add: captured_count)
  then have "balance_list (collect pg (logged_in_state u p)) = []"
    by simp
  then show "files (scrape_opal u p pg fs) ''balance.json''
       = Some (JObj [(''balance'', JNull), (''currency'', JStr ''AUD''), (''card_id'', JNull),
                     (''last_updated'', JStr (isoformat_naive (final_clock pg)))])"
    using a by (simp add: balance_file balance_json_def)
qed

theorem C9_no_balance_witness:
  "login_form (sample_page []) \<and> logged_in (sample_page []) \<and> n_balances (sample_page []) = 0
   \<and> files (scrape_opal ''user'' ''secret'' (sample_page []) Map.empty) ''balance.json''
       = Some (JObj [(''balance'', JNull), (''currency'', JStr ''AUD''), (''card_id'', JNull),
                     (''last_updated'', JStr ''2025-11-05T14:30:00'')])"
  using C9_no_balance [of "sample_page []" "''user''" "''secret''" Map.empty]
  by (simp add: login_sample n_balances_none iso_final)

text \<open>
  Claim C7. When the login form does not appear, or when the credentials are rejected
  after the login attempt, the run ends with an entry of level ERROR as its last log line
  (LoginFormNotFound, or LoginFailed with its message), the last thing done to the browser
  is to close it, and the files are those that were there before: neither
  transactions.json nor balance.json is written.
\<close>

theorem C7_fatal_failure:
  "(\<not> login_form pg \<longrightarrow>
      files (scrape_opal u p pg fs) = fs
      \<and> last (browser (scrape_opal u p pg fs)) = Close
      \<and> last (logged (scrape_opal u p pg fs)) = LoginFormNotFound)
   \<and> (login_form pg \<and> credentials_rejected pg \<longrightarrow>
        files (scrape_opal u p pg fs) = fs
        \<and> last (browser (scrape_opal u p pg fs)) = Close
        \<and> (\<exists>m. last (logged (scrape_opal u p pg fs)) = LoginFailed m))
   \<and> (\<not> login_form pg \<or> credentials_rejected pg \<longrightarrow>
        level (last (logged (scrape_opal u p pg fs))) = ERROR)"
proof -
  have 1: "files (scrape_opal u p pg fs) = fs
      \<and> last (browser (scrape_opal u p pg fs)) = Close
      \<and> last (logged (scrape_opal u p pg fs)) = LoginFormNotFound"
    if "\<not> login_form pg"
    using that by (simp add: scrape_opal_def)
  have 2: "files (scrape_opal u p pg fs) = fs
        \<and> last (browser (scrape_opal u p pg fs)) = Close
        \<and> (\<exists>m. last (logged (scrape_opal u p pg fs)) = LoginFailed m)"
    if "login_form pg" "credentials_rejected pg"
    using that
    by (auto simp: scrape_opal_def credentials_rejected_def truthy_def Let_def
          split: error_obs.splits)
  have 3: "level (last (logged (scrape_opal u p pg fs))) = ERROR"
    if "\<not> login_form pg \<or> credentials_rejected pg"
  proof (cases "login_form pg")
    case False
    with 1 show ?thesis by simp
  next
    case True
    with that 2 obtain m where "last (logged (scrape_opal u p pg fs)) = LoginFailed m" by blast
    then show ?thesis by simp
  qed
  from 1 2 3 show ?thesis by blast
qed

theorem C7_fatal_failure_witness:
  "\<not> login_form ((sample_page [])\<lparr>login_form := False\<rparr>)
   \<and> files (scrape_opal ''user'' ''secret'' ((sample_page [])\<lparr>login_form := False\<rparr>) Map.empty) = Map.empty
   \<and> last (browser (scrape_opal ''user'' ''secret'' ((sample_page [])\<lparr>login_form := False\<rparr>) Map.empty)) = Close
   \<and> last (logged (scrape_opal ''user'' ''secret'' ((sample_page [])\<lparr>login_form := False\<rparr>) Map.empty))
       = LoginFormNotFound
   \<and> login_form ((sample_page [])\<lparr>logged_in := False, still_login := True\<rparr>)
   \<and> credentials_rejected ((sample_page [])\<lparr>logged_in := False, still_login := True\<rparr>)
   \<and> files (scrape_opal ''user'' ''wrong'' ((sample_page [])\<lparr>logged_in := False, still_login := True\<rparr>) Map.empty)
       = Map.empty
   \<and> last (browser (scrape_opal ''user'' ''wrong''
                      ((sample_page [])\<lparr>logged_in := False, still_login := True\<rparr>) Map.empty)) = Close
   \<and> level (last (logged (scrape_opal ''user'' ''wrong''
                      ((sample_page [])\<lparr>logged_in := False, still_login := True\<rparr>) Map.empty))) = ERROR"
proof -
  let ?p1 = "(sample_page [])\<lparr>login_form := False\<rparr>"
  let ?p2 = "(sample_page [])\<lparr>logged_in := False, still_login := True\<rparr>"
  have a: "\<not> login_form ?p1"
    by (simp add: sample_page_def)
  have b: "login_form ?p2 \<and> credentials_rejected ?p2"
    by (simp add: sample_page_def credentials_rejected_def)
  from C7_fatal_failure [of ?p1 "''user''" "''secret''" Map.empty] a
  have 1: "files (scrape_opal ''user'' ''secret'' ?p1 Map.empty) = Map.empty
      \<and> last (browser (scrape_opal ''user'' ''secret'' ?p1 Map.empty)) = Close
      \<and> last (logged (scrape_opal ''user'' ''secret'' ?p1 Map.empty)) = LoginFormNotFound"
    by blast
  from C7_fatal_failure [of ?p2 "''user''" "''wrong''" Map.empty] b
  have 2: "files (scrape_opal ''user'' ''wrong'' ?p2 Map.empty) = Map.empty
      \<and> last (browser (scrape_opal ''user'' ''wrong'' ?p2 Map.empty)) = Close
      \<and> level (last (logged (scrape_opal ''user'' ''wrong'' ?p2 Map.empty))) = ERROR"
    by blast
  from a b 1 2 show ?thesis by blast
qed

text \<open>
  Claim C8. With the demo flag, main writes to transactions.json exactly two records, the
  Train trip from International to Rhodes on the card Jack for -22.26 and the Bus trip from
  Rhodes to Meadowbank on the card Work Card for -3.20, each with the fields and values of
  the literals of run_demo; it writes to balance.json an object whose cards sequence is
  exactly the two entries Jack with 9.7 and Work Card with 20.5, in AUD. The records are
  those of \<open>sample_transactions\<close> and \<open>sample_cards\<close>, each of length 2, and both
  trip records have the currency AUD and a description made of their own locations and
  trip type. All this holds whatever the credentials, the page and the files before are,
  and nothing is done to the browser: the only log line is that of the demo.
\<close>

theorem C8_demo_mode:
  "files (main True u p now pg fs)
     = (fs(''transactions.json'' \<mapsto> JArr sample_transactions))
         (''balance.json'' \<mapsto> JObj [(''cards'', JArr sample_cards),
                                      (''last_updated'', JStr (isoformat_naive now))])
   \<and> length sample_transactions = 2
   \<and> length sample_cards = 2
   \<and> browser (main True u p now pg fs) = []
   \<and> logged (main True u p now pg fs) = [DemoDataWritten]
   \<and> files (main True u p now pg fs) ''transactions.json''
       = Some (JArr
           [JObj [(''time_local'', JStr ''2025-11-05T10:47:00+11:00''),
                  (''time_utc'', JStr ''2025-11-04T23:47:00Z''),
                  (''amount'', JNum (Finite True (2226 / 100))),
                  (''currency'', JStr ''AUD''),
                  (''description'', JStr (''International '' @ arrow @ '' Rhodes (Train)'')),
                  (''card_id'', JStr ''Jack''),
                  (''trip_type'', JStr ''Train''),
                  (''tap_on_location'', JStr ''International''),
                  (''tap_off_location'', JStr ''Rhodes'')],
            JObj [(''time_local'', JStr ''2025-11-05T09:15:00+11:00''),
                  (''time_utc'', JStr ''2025-11-04T22:15:00Z''),
                  (''amount'', JNum (Finite True (320 / 100))),
                  (''currency'', JStr ''AUD''),
                  (''description'', JStr (''Rhodes '' @ arrow @ '' Meadowbank (Bus)'')),
                  (''card_id'', JStr ''Work Card''),
                  (''trip_type'', JStr ''Bus''),
                  (''tap_on_location'', JStr ''Rhodes''),
                  (''tap_off_location'', JStr ''Meadowbank'')]])
   \<and> files (main True u p now pg fs) ''balance.json''
       = Some (JObj
           [(''cards'', JArr
               [JObj [(''card_id'', JStr ''Jack''), (''balance'', JNum (Finite False (97 / 10))),
                      (''currency'', JStr ''AUD'')],
                JObj [(''card_id'', JStr ''Work Card''), (''balance'', JNum (Finite False (205 / 10))),
                      (''currency'', JStr ''AUD'')]]),
            (''last_updated'', JStr (isoformat_naive now))])
   \<and> list_all trip_invariant sample_transactions
   \<and> map (field ''card_id'') sample_cards = [Some (JStr ''Jack''), Some (JStr ''Work Card'')]
   \<and> main True u p now pg fs = main True u' p' now pg' fs"
proof -
  have f: "files (main True u p now pg fs)
     = (fs(''transactions.json'' \<mapsto> JArr sample_transactions))
         (''balance.json'' \<mapsto> JObj [(''cards'', JArr sample_cards),
                                      (''last_updated'', JStr (isoformat_naive now))])"
    by (simp add: main_def run_demo_def)
  have n: "length sample_transactions = 2 \<and> length sample_cards = 2"
    by (simp add: sample_transactions_def sample_cards_def)
  have b: "browser (main True u p now pg fs) = []
           \<and> logged (main True u p now pg fs) = [DemoDataWritten]"
    by (simp add: main_def run_demo_def)
  have t: "files (main True u p now pg fs) ''transactions.json''
       = Some (JArr
           [JObj [(''time_local'', JStr ''2025-11-05T10:47:00+11:00''),
                  (''time_utc'', JStr ''2025-11-04T23:47:00Z''),
                  (''amount'', JNum (Finite True (2226 / 100))),
                  (''currency'', JStr ''AUD''),
                  (''description'', JStr (''International '' @ arrow @ '' Rhodes (Train)'')),
                  (''card_id'', JStr ''Jack''),
                  (''trip_type'', JStr ''Train''),
                  (''tap_on_location'', JStr ''International''),
                  (''tap_off_location'', JStr ''Rhodes'')],
            JObj [(''time_local'', JStr ''2025-11-05T09:15:00+11:00''),
                  (''time_utc'', JStr ''2025-11-04T22:15:00Z''),
                  (''amount'', JNum (Finite True (320 / 100))),
                  (''currency'', JStr ''AUD''),
                  (''description'', JStr (''Rhodes '' @ arrow @ '' Meadowbank (Bus)'')),
                  (''card_id'', JStr ''Work Card''),
                  (''trip_type'', JStr ''Bus''),
                  (''tap_on_location'', JStr ''Rhodes''),
                  (''tap_off_location'', JStr ''Meadowbank'')]])"
    unfolding f by (simp add: sample_transactions_def fneg_def)
  have c: "files (main True u p now pg fs) ''balance.json''
       = Some (JObj
           [(''cards'', JArr
               [JObj [(''card_id'', JStr ''Jack''), (''balance'', JNum (Finite False (97 / 10))),
                      (''currency'', JStr ''AUD'')],
                JObj [(''card_id'', JStr ''Work Card''), (''balance'', JNum (Finite False (205 / 10))),
                      (''currency'', JStr ''AUD'')]]),
            (''last_updated'', JStr (isoformat_naive now))])"
    unfolding f by (simp add: sample_cards_def)
  have i: "list_all trip_invariant sample_transactions"
    by (simp add: sample_transactions_def trip_invariant_def field_def)
  have k: "map (field ''card_id'') sample_cards = [Some (JStr ''Jack''), Some (JStr ''Work Card'')]"
    by (simp add: sample_cards_def field_def)
  have d: "main True u p now pg fs = main True u' p' now pg' fs"
    by (simp add: main_def)
  from f n b t c i k d show ?thesis by blast
qed

theorem C8_demo_mode_witness:
  "files (main True ''user'' ''secret'' (final_clock (sample_page [])) (sample_page []) Map.empty)
       ''transactions.json'' = Some (JArr sample_transactions)
   \<and> map (field ''amount'') sample_transactions
       = [Some (JNum (Finite True (2226 / 100))), Some (JNum (Finite True (320 / 100)))]
   \<and> map (field ''card_id'') sample_transactions
       = [Some (JStr ''Jack''), Some (JStr ''Work Card'')]
   \<and> Option.bind (files (main True ''user'' ''secret'' (final_clock (sample_page [])) (sample_page [])
                         Map.empty) ''balance.json'') cards_of
       = Some [JObj [(''card_id'', JStr ''Jack''), (''balance'', JNum (Finite False (97 / 10))),
                     (''currency'', JStr ''AUD'')],
               JObj [(''card_id'', JStr ''Work Card''), (''balance'', JNum (Finite False (205 / 10))),
                     (''currency'', JStr ''AUD'')]]
   \<and> files (main True ''user'' ''secret'' (final_clock (sample_page [])) (sample_page []) Map.empty)
       ''balance.json''
       = Some (JObj [(''cards'', JArr sample_cards), (''last_updated'', JStr ''2025-11-05T14:30:00'')])
   \<and> browser (main True ''user'' ''secret'' (final_clock (sample_page [])) (sample_page []) Map.empty) = []
   \<and> main True ''user'' ''secret'' (final_clock (sample_page [])) (sample_page []) Map.empty
       = main True ''other'' [] (final_clock (sample_page [])) (sample_page [card_jack]) Map.empty"
proof -
  note T = C8_demo_mode [of "''user''" "''secret''" "final_clock (sample_page [])" "sample_page []"
                            Map.empty "''other''" "[]" "sample_page [card_jack]"]
  let ?r = "main True ''user'' ''secret'' (final_clock (sample_page [])) (sample_page []) Map.empty"
  from T have f: "files ?r
     = (Map.empty(''transactions.json'' \<mapsto> JArr sample_transactions))
         (''balance.json'' \<mapsto> JObj [(''cards'', JArr sample_cards),
            (''last_updated'', JStr (isoformat_naive (final_clock (sample_page []))))])"
    by blast
  have tx: "files ?r ''transactions.json'' = Some (JArr sample_transactions)"
    unfolding f by simp
  from T have "files ?r ''transactions.json''
       = Some (JArr
           [JObj [(''time_local'', JStr ''2025-11-05T10:47:00+11:00''),
                  (''time_utc'', JStr ''2025-11-04T23:47:00Z''),
                  (''amount'', JNum (Finite True (2226 / 100))),
                  (''currency'', JStr ''AUD''),
                  (''description'', JStr (''International '' @ arrow @ '' Rhodes (Train)'')),
                  (''card_id'', JStr ''Jack''),
                  (''trip_type'', JStr ''Train''),
                  (''tap_on_location'', JStr ''International''),
                  (''tap_off_location'', JStr ''Rhodes'')],
            JObj [(''time_local'', JStr ''2025-11-05T09:15:00+11:00''),
                  (''time_utc'', JStr ''2025-11-04T22:15:00Z''),
                  (''amount'', JNum (Finite True (320 / 100))),
                  (''currency'', JStr ''AUD''),
                  (''description'', JStr (''Rhodes '' @ arrow @ '' Meadowbank (Bus)'')),
                  (''card_id'', JStr ''Work Card''),
                  (''trip_type'', JStr ''Bus''),
                  (''tap_on_location'', JStr ''Rhodes''),
                  (''tap_off_location'', JStr ''Meadowbank'')]])"
    by blast
  with tx have ts: "sample_transactions
       = [JObj [(''time_local'', JStr ''2025-11-05T10:47:00+11:00''),
                  (''time_utc'', JStr ''2025-11-04T23:47:00Z''),
                  (''amount'', JNum (Finite True (2226 / 100))),
                  (''currency'', JStr ''AUD''),
                  (''description'', JStr (''International '' @ arrow @ '' Rhodes (Train)'')),
                  (''card_id'', JStr ''Jack''),
                  (''trip_type'', JStr ''Train''),
                  (''tap_on_location'', JStr ''International''),
                  (''tap_off_location'', JStr ''Rhodes'')],
            JObj [(''time_local'', JStr ''2025-11-05T09:15:00+11:00''),
                  (''time_utc'', JStr ''2025-11-04T22:15:00Z''),
                  (''amount'', JNum (Finite True (320 / 100))),
                  (''currency'', JStr ''AUD''),
                  (''description'', JStr (''Rhodes '' @ arrow @ '' Meadowbank (Bus)'')),
                  (''card_id'', JStr ''Work Card''),
                  (''trip_type'', JStr ''Bus''),
                  (''tap_on_location'', JStr ''Rhodes''),
                  (''tap_off_location'', JStr ''Meadowbank'')]]"
    by simp
  have am: "map (field ''amount'') sample_transactions
       = [Some (JNum (Finite True (2226 / 100))), Some (JNum (Finite True (320 / 100)))]
     \<and> map (field ''card_id'') sample_transactions
       = [Some (JStr ''Jack''), Some (JStr ''Work Card'')]"
    unfolding ts by (simp add: field_def)
  from T have bal: "files ?r ''balance.json''
       = Some (JObj
           [(''cards'', JArr
               [JObj [(''card_id'', JStr ''Jack''), (''balance'', JNum (Finite False (97 / 10))),
                      (''currency'', JStr ''AUD'')],
                JObj [(''card_id'', JStr ''Work Card''), (''balance'', JNum (Finite False (205 / 10))),
                      (''currency'', JStr ''AUD'')]]),
            (''last_updated'', JStr (isoformat_naive (final_clock (sample_page []))))])"
    by blast
  have cs: "Option.bind (files ?r ''balance.json'') cards_of
       = Some [JObj [(''card_id'', JStr ''Jack''), (''balance'', JNum (Finite False (97 / 10))),
                     (''currency'', JStr ''AUD'')],
               JObj [(''card_id'', JStr ''Work Card''), (''balance'', JNum (Finite False (205 / 10))),
                     (''currency'', JStr ''AUD'')]]"
    unfolding bal by (simp add: cards_of_def field_def)
  have b2: "files ?r ''balance.json''
       = Some (JObj [(''cards'', JArr sample_cards), (''last_updated'', JStr ''2025-11-05T14:30:00'')])"
    unfolding f by (simp add: iso_final)
  from T have br: "browser ?r = []"
    by blast
  from T have ind: "?r = main True ''other'' [] (final_clock (sample_page [])) (sample_page [card_jack]) Map.empty"
    by blast
  from tx am cs b2 br ind show ?thesis by blast
qed

end
